theory Spec2Isabelle
  imports Main "HOL-Library.Sublist"
begin

section \<open>Data model\<close>

text \<open>
  The module \<^verbatim>\<open>pylok.py\<close> keeps advisory locks as files: the resource
  \<^verbatim>\<open>lock_object\<close> is locked while the file
  \<^verbatim>\<open>lock_file_directory + lock_object + ".lock"\<close> can be opened for reading.
  The embedding has three layers:
  \<^item> Python values: dictionaries with string keys, kept as association lists in
    insertion order (the order of a Python \<^verbatim>\<open>dict\<close>);
  \<^item> the operating system: a tree of directories and regular files, with the library
    calls the module makes (\<^verbatim>\<open>os.makedirs\<close>, \<^verbatim>\<open>open\<close>,
    \<^verbatim>\<open>os.remove\<close>, \<^verbatim>\<open>yaml.dump\<close>);
  \<^item> the functions of the module, each under its own name, with the file system passed
    in and returned, and every exception as a value.
\<close>

subsection \<open>Python values and dictionaries\<close>

datatype pyval = PyNone | PyStr string | PyInt int | PyBool bool

type_synonym metadata = "(string \<times> pyval) list"

text \<open>\<^verbatim>\<open>d[k] = v\<close>: an existing key keeps its position, a new key goes last.\<close>

primrec dict_set :: "string \<Rightarrow> pyval \<Rightarrow> metadata \<Rightarrow> metadata" where
  "dict_set k v [] = [(k, v)]"
| "dict_set k v (p # ps) = (if fst p = k then (k, v) # ps else p # dict_set k v ps)"

text \<open>\<^verbatim>\<open>d.update(other)\<close>: the items of \<open>other\<close> are stored in their order.\<close>

definition dict_update :: "metadata \<Rightarrow> metadata \<Rightarrow> metadata" where
  "dict_update d other = fold (\<lambda>(k, v). dict_set k v) other d"

text \<open>\<^verbatim>\<open>d.get(k)\<close>: the value stored under a key, if any.\<close>

definition dict_get :: "metadata \<Rightarrow> string \<Rightarrow> pyval option" where
  "dict_get d k = map_of d k"

subsection \<open>Exceptions\<close>

text \<open>
  The four exception classes of the module, and \<^verbatim>\<open>OSError\<close> with its
  \<^verbatim>\<open>errno\<close> for what the operating system raises.
\<close>

datatype errno = ENOENT | EEXIST | ENOTDIR | EISDIR | EACCES | ENAMETOOLONG

datatype error =
    LockFileNotPresentError
  | LockFilePresentError
  | LockFileNotPresentForRemoval
  | LockActionError
  | OSError errno

subsection \<open>The file system\<close>

text \<open>
  A path string names the list of its non-empty components between slashes; the
  current directory is the root, so a relative and an absolute spelling of the same
  components name the same node. Symbolic links and the components \<^verbatim>\<open>.\<close> and
  \<^verbatim>\<open>..\<close> are not interpreted. The permissions are those of the process that
  calls the module: a directory carries whether the process may create and remove
  entries in it, a regular file whether the process may read it and may write it. The
  content of a file is \<open>None\<close> when the file is empty and \<open>Some d\<close> when it holds
  the YAML document of the dictionary \<open>d\<close> (the serializer is taken to round-trip;
  the order of the keys in the document is not modelled). A component of a path is at
  most \<open>name_max\<close> characters long. New directories and files are made readable and
  writable for the process.
\<close>

datatype node =
    Dir (dir_writable: bool)
  | File (readable: bool) (writable: bool) (content: "metadata option")

type_synonym path = "string list"

type_synonym fs = "path \<rightharpoonup> node"

definition name_max :: nat where
  "name_max = 255"

fun split_slash :: "string \<Rightarrow> string \<Rightarrow> string list" where
  "split_slash cur [] = [cur]"
| "split_slash cur (c # cs) =
     (if c = CHR ''/'' then cur # split_slash [] cs else split_slash (cur @ [c]) cs)"

definition path_of :: "string \<Rightarrow> path" where
  "path_of s = filter (\<lambda>c. c \<noteq> []) (split_slash [] s)"

text \<open>The root directory always exists and is writable.\<close>

definition node_at :: "fs \<Rightarrow> path \<Rightarrow> node option" where
  "node_at fs p = (if p = [] then Some (Dir True) else fs p)"

text \<open>
  Whether a new entry may be made at a path where nothing is: the parent has to be a
  directory that the process may write, and the name must not be too long.
\<close>

definition may_create :: "path \<Rightarrow> fs \<Rightarrow> errno option" where
  "may_create p fs =
     (case node_at fs (butlast p) of
        None \<Rightarrow> Some ENOENT
      | Some (File _ _ _) \<Rightarrow> Some ENOTDIR
      | Some (Dir dw) \<Rightarrow>
          if name_max < length (last p) then Some ENAMETOOLONG
          else if \<not> dw then Some EACCES
          else None)"

text \<open>The error of looking up a path where nothing is.\<close>

definition lookup_errno :: "path \<Rightarrow> fs \<Rightarrow> errno" where
  "lookup_errno p fs =
     (case node_at fs (butlast p) of
        None \<Rightarrow> ENOENT
      | Some (File _ _ _) \<Rightarrow> ENOTDIR
      | Some (Dir _) \<Rightarrow> if name_max < length (last p) then ENAMETOOLONG else ENOENT)"

text \<open>\<^verbatim>\<open>os.mkdir\<close> on a component list.\<close>

definition os_mkdir :: "path \<Rightarrow> fs \<Rightarrow> errno option \<times> fs" where
  "os_mkdir p fs =
     (case node_at fs p of
        Some _ \<Rightarrow> (Some EEXIST, fs)
      | None \<Rightarrow>
          (case may_create p fs of
             Some e \<Rightarrow> (Some e, fs)
           | None \<Rightarrow> (None, fs(p \<mapsto> Dir True))))"

text \<open>
  \<^verbatim>\<open>os.makedirs(name)\<close> with \<^verbatim>\<open>exist_ok=False\<close>, as CPython writes it: when
  the parent does not exist it is made first (an "already exists" from that inner
  call is ignored, any other error is passed on), then the directory itself is made.
\<close>

function makedirs_at :: "path \<Rightarrow> fs \<Rightarrow> errno option \<times> fs" where
  "makedirs_at p fs =
     (if p \<noteq> [] \<and> butlast p \<noteq> [] \<and> node_at fs (butlast p) = None then
        (case makedirs_at (butlast p) fs of
           (None, fs1) \<Rightarrow> os_mkdir p fs1
         | (Some e, fs1) \<Rightarrow> if e = EEXIST then os_mkdir p fs1 else (Some e, fs1))
      else os_mkdir p fs)"
  by pat_completeness auto
termination
  by (relation "measure (\<lambda>(p, fs). length p)") auto

declare makedirs_at.simps [simp del]

text \<open>The empty string is no path: \<^verbatim>\<open>os.makedirs('')\<close> raises FileNotFoundError.\<close>

definition os_makedirs :: "string \<Rightarrow> fs \<Rightarrow> errno option \<times> fs" where
  "os_makedirs name fs = (if name = [] then (Some ENOENT, fs) else makedirs_at (path_of name) fs)"

text \<open>\<^verbatim>\<open>open(name, 'r')\<close> succeeds on a readable regular file only.\<close>

definition os_open_read :: "string \<Rightarrow> fs \<Rightarrow> bool" where
  "os_open_read name fs =
     (case node_at fs (path_of name) of Some (File r _ _) \<Rightarrow> r | _ \<Rightarrow> False)"

text \<open>
  Opening for writing, in the modes \<^verbatim>\<open>'a'\<close> and \<^verbatim>\<open>'w'\<close>: an existing regular
  file is opened when the process may write it (\<^verbatim>\<open>EACCES\<close> otherwise); where
  nothing is, an empty file is created when the process may create the entry.
\<close>

definition os_open_create :: "path \<Rightarrow> fs \<Rightarrow> errno option \<times> fs" where
  "os_open_create p fs =
     (case node_at fs p of
        Some (File _ w _) \<Rightarrow> if w then (None, fs) else (Some EACCES, fs)
      | Some (Dir _) \<Rightarrow> (Some EISDIR, fs)
      | None \<Rightarrow>
          (case may_create p fs of
             Some e \<Rightarrow> (Some e, fs)
           | None \<Rightarrow> (None, fs(p \<mapsto> File True True None))))"

text \<open>\<^verbatim>\<open>open(name, 'a').close()\<close>: the content of an existing file stays.\<close>

definition os_open_append :: "string \<Rightarrow> fs \<Rightarrow> errno option \<times> fs" where
  "os_open_append name fs = os_open_create (path_of name) fs"

text \<open>
  \<^verbatim>\<open>with open(name, 'w') as f: yaml.dump(data, f)\<close>: the file is truncated and
  holds the document of \<open>data\<close> afterwards.
\<close>

definition os_open_write_dump :: "string \<Rightarrow> metadata \<Rightarrow> fs \<Rightarrow> errno option \<times> fs" where
  "os_open_write_dump name data fs =
     (case os_open_create (path_of name) fs of
        (Some e, fs1) \<Rightarrow> (Some e, fs1)
      | (None, fs1) \<Rightarrow>
          (case fs1 (path_of name) of
             Some (File r w _) \<Rightarrow> (None, fs1(path_of name \<mapsto> File r w (Some data)))
           | _ \<Rightarrow> (Some EISDIR, fs1)))"

text \<open>
  \<^verbatim>\<open>os.remove(name)\<close> removes a regular file, readable or not, writable or not,
  when the process may write the directory that holds it (\<^verbatim>\<open>EACCES\<close> otherwise).
\<close>

definition os_remove :: "string \<Rightarrow> fs \<Rightarrow> errno option \<times> fs" where
  "os_remove name fs =
     (case node_at fs (path_of name) of
        Some (File _ _ _) \<Rightarrow>
          (case node_at fs (butlast (path_of name)) of
             Some (Dir dw) \<Rightarrow>
               if dw then (None, fs(path_of name := None)) else (Some EACCES, fs)
           | Some (File _ _ _) \<Rightarrow> (Some ENOTDIR, fs)
           | None \<Rightarrow> (Some ENOENT, fs))
      | Some (Dir _) \<Rightarrow> (Some EISDIR, fs)
      | None \<Rightarrow> (Some (lookup_errno (path_of name) fs), fs))"

section \<open>The functions of pylok.py\<close>

text \<open>
  \<^verbatim>\<open>is_locked\<close>: the bare \<^verbatim>\<open>except\<close> turns every failure of
  \<^verbatim>\<open>open\<close> into \<^verbatim>\<open>False\<close>.
\<close>

definition is_locked :: "string \<Rightarrow> fs \<Rightarrow> bool" where
  "is_locked lock_file fs = os_open_read lock_file fs"

text \<open>\<^verbatim>\<open>ensure_lock\<close> and \<^verbatim>\<open>ensure_unlock\<close>: \<open>None\<close> is the return of \<^verbatim>\<open>True\<close>.\<close>

definition ensure_lock :: "string \<Rightarrow> fs \<Rightarrow> error option" where
  "ensure_lock lock_file fs =
     (let file_is_locked = is_locked lock_file fs
      in if \<not> file_is_locked then Some LockFileNotPresentError else None)"

definition ensure_unlock :: "string \<Rightarrow> fs \<Rightarrow> error option" where
  "ensure_unlock lock_file fs =
     (let file_is_locked = is_locked lock_file fs
      in if file_is_locked then Some LockFilePresentError else None)"

text \<open>\<^verbatim>\<open>create_lock_dir\<close>: only \<^verbatim>\<open>EEXIST\<close> is swallowed.\<close>

definition create_lock_dir :: "string \<Rightarrow> fs \<Rightarrow> error option \<times> fs" where
  "create_lock_dir lock_file_directory fs =
     (case os_makedirs lock_file_directory fs of
        (None, fs1) \<Rightarrow> (None, fs1)
      | (Some e, fs1) \<Rightarrow> if e \<noteq> EEXIST then (Some (OSError e), fs1) else (None, fs1))"

definition create_lock_file :: "string \<Rightarrow> fs \<Rightarrow> error option \<times> fs" where
  "create_lock_file lock_file fs =
     (case os_open_append lock_file fs of
        (None, fs1) \<Rightarrow> (None, fs1)
      | (Some e, fs1) \<Rightarrow> (Some (OSError e), fs1))"

text \<open>
  \<^verbatim>\<open>write_to_lock_file\<close> builds the file name again from the directory and the
  object.
\<close>

definition write_to_lock_file :: "string \<Rightarrow> string \<Rightarrow> metadata \<Rightarrow> fs \<Rightarrow> error option \<times> fs" where
  "write_to_lock_file location lock_object lock_data fs =
     (let lock_file = location @ lock_object @ ''.lock''
      in case os_open_write_dump lock_file lock_data fs of
           (None, fs1) \<Rightarrow> (None, fs1)
         | (Some e, fs1) \<Rightarrow> (Some (OSError e), fs1))"

definition remove_lock_file :: "string \<Rightarrow> fs \<Rightarrow> error option \<times> fs" where
  "remove_lock_file lock_file fs =
     (case os_remove lock_file fs of
        (None, fs1) \<Rightarrow> (None, fs1)
      | (Some e, fs1) \<Rightarrow> (Some (OSError e), fs1))"

text \<open>The two lines that derive the lock file from the arguments of \<^verbatim>\<open>lock\<close>.\<close>

definition lock_file_name_of :: "string \<Rightarrow> string" where
  "lock_file_name_of lock_object = lock_object @ ''.lock''"

definition lock_file_of :: "string \<Rightarrow> string \<Rightarrow> string" where
  "lock_file_of lock_file_directory lock_object =
     lock_file_directory @ lock_file_name_of lock_object"

text \<open>
  \<^verbatim>\<open>lock\<close> (lines 71 to 241). The branches follow the source in its order: the
  directory bootstrap, then \<^verbatim>\<open>status\<close>, \<^verbatim>\<open>unlock\<close>, \<^verbatim>\<open>lock\<close> and the
  final \<^verbatim>\<open>else\<close>. The dictionary \<^verbatim>\<open>lock_data\<close> is updated in place and is the
  object returned. The result is the exception raised, if any, the dictionary object
  as the call leaves it, and the file system as the call leaves it: with \<open>None\<close> in the
  first place the call returned the dictionary in the second place.
\<close>

definition lock ::
  "string \<Rightarrow> string \<Rightarrow> metadata \<Rightarrow> string \<Rightarrow> bool \<Rightarrow> bool \<Rightarrow> fs \<Rightarrow> error option \<times> metadata \<times> fs" where
  "lock lock_file_directory lock_object lock_data lock_action ensure_unlock_state ensure_lock_state fs =
     (let lock_file = lock_file_of lock_file_directory lock_object
      in case create_lock_dir lock_file_directory fs of
           (Some e, fs1) \<Rightarrow> (Some e, lock_data, fs1)
         | (None, fs1) \<Rightarrow>
             if lock_action = ''status'' then
               (let file_is_locked = is_locked lock_file fs1;
                    return_info =
                      (if \<not> file_is_locked
                       then [(''lock_file_location'', PyNone),
                             (''lock_file_status'', PyStr ''unlocked'')]
                       else [(''lock_file_location'', PyStr lock_file),
                             (''lock_file_status'', PyStr ''locked'')]);
                    lock_data1 = dict_update lock_data return_info
                in (None, dict_update lock_data1 [(''lock_action'', PyStr lock_action)], fs1))
             else if lock_action = ''unlock'' then
               (case (if ensure_lock_state then ensure_lock lock_file fs1 else None) of
                  Some e \<Rightarrow> (Some e, lock_data, fs1)
                | None \<Rightarrow>
                    (case remove_lock_file lock_file fs1 of
                       (Some _, fs2) \<Rightarrow> (Some LockFileNotPresentError, lock_data, fs2)
                     | (None, fs2) \<Rightarrow>
                         if \<not> is_locked lock_file fs2 then
                           (let return_info =
                                  [(''lock_file_location'', PyNone),
                                   (''lock_file_status'', PyStr ''unlocked'')];
                                lock_data1 = dict_update lock_data return_info
                            in (None,
                                dict_update lock_data1 [(''lock_action'', PyStr lock_action)],
                                fs2))
                         else (Some LockFileNotPresentForRemoval, lock_data, fs2)))
             else if lock_action = ''lock'' then
               (case (if ensure_unlock_state then ensure_unlock lock_file fs1 else None) of
                  Some e \<Rightarrow> (Some e, lock_data, fs1)
                | None \<Rightarrow>
                    (case create_lock_file lock_file fs1 of
                       (Some e, fs2) \<Rightarrow> (Some e, lock_data, fs2)
                     | (None, fs2) \<Rightarrow>
                         (let return_info =
                                [(''lock_file_location'', PyStr lock_file),
                                 (''lock_file_status'', PyStr ''locked'')];
                              lock_data1 = dict_update lock_data return_info
                          in case write_to_lock_file lock_file_directory lock_object
                                    lock_data1 fs2 of
                               (Some e, fs3) \<Rightarrow> (Some e, lock_data1, fs3)
                             | (None, fs3) \<Rightarrow>
                                 if is_locked lock_file fs3 then
                                   (None,
                                    dict_update lock_data1
                                      [(''lock_action'', PyStr lock_action)],
                                    fs3)
                                 else (Some LockFileNotPresentError, lock_data1, fs3))))
             else (Some LockActionError, lock_data, fs1))"

text \<open>
  The default value \<^verbatim>\<open>lock_data={}\<close> is one dictionary object, made when the
  function is defined. A call that leaves the argument out works on that object; the
  world is the file system together with that object.
\<close>

record world =
  filesystem :: fs
  lock_data_default :: metadata

definition world0 :: world where
  "world0 = \<lparr>filesystem = Map.empty, lock_data_default = []\<rparr>"

definition lock_call ::
  "string \<Rightarrow> string \<Rightarrow> metadata option \<Rightarrow> string \<Rightarrow> bool \<Rightarrow> bool \<Rightarrow> world
     \<Rightarrow> (error + metadata) \<times> world" where
  "lock_call lock_file_directory lock_object lock_data_arg lock_action
             ensure_unlock_state ensure_lock_state w =
     (case lock_data_arg of
        Some lock_data \<Rightarrow>
          (case lock lock_file_directory lock_object lock_data lock_action
                     ensure_unlock_state ensure_lock_state (filesystem w) of
             (None, d, fs1) \<Rightarrow> (Inr d, w\<lparr>filesystem := fs1\<rparr>)
           | (Some e, d, fs1) \<Rightarrow> (Inl e, w\<lparr>filesystem := fs1\<rparr>))
      | None \<Rightarrow>
          (case lock lock_file_directory lock_object (lock_data_default w) lock_action
                     ensure_unlock_state ensure_lock_state (filesystem w) of
             (None, d, fs1) \<Rightarrow> (Inr d, w\<lparr>filesystem := fs1, lock_data_default := d\<rparr>)
           | (Some e, d, fs1) \<Rightarrow> (Inl e, w\<lparr>filesystem := fs1, lock_data_default := d\<rparr>)))"

text \<open>What a reader of the lock file gets back from the YAML parser.\<close>

definition persisted :: "string \<Rightarrow> fs \<Rightarrow> metadata option" where
  "persisted name fs =
     (case node_at fs (path_of name) of Some (File _ _ c) \<Rightarrow> c | _ \<Rightarrow> None)"

text \<open>
  The second file system has every node of the first one unchanged and, besides, only
  new directories: no regular file was created, changed or removed.
\<close>

definition only_dirs_added :: "fs \<Rightarrow> fs \<Rightarrow> bool" where
  "only_dirs_added fs fs' = (\<forall>q. fs' q = fs q \<or> (fs q = None \<and> fs' q = Some (Dir True)))"

section \<open>Properties of the model\<close>

subsection \<open>Dictionaries and paths\<close>

lemma map_of_dict_set: "map_of (dict_set k v d) = (map_of d)(k \<mapsto> v)"
  by (induction d) auto

lemma dict_get_dict_set: "dict_get (dict_set k v d) k' = (if k' = k then Some v else dict_get d k')"
  by (simp add: dict_get_def map_of_dict_set)

lemma dict_update_Nil: "dict_update d [] = d"
  by (simp add: dict_update_def)

lemma dict_update_Cons: "dict_update d ((k, v) # other) = dict_update (dict_set k v d) other"
  by (simp add: dict_update_def)

lemma concat_split_slash:
  "concat (split_slash cur s) = cur @ filter (\<lambda>c. c \<noteq> CHR ''/'') s"
  by (induction s arbitrary: cur) auto

lemma concat_drop_empty: "concat (filter (\<lambda>c. c \<noteq> []) xs) = concat xs"
  by (induction xs) auto

lemma concat_path_of: "concat (path_of s) = filter (\<lambda>c. c \<noteq> CHR ''/'') s"
  by (simp add: path_of_def concat_drop_empty concat_split_slash)

lemma prefix_concat: "prefix xs ys \<Longrightarrow> prefix (concat xs) (concat ys)"
  by (auto simp: prefix_def)

lemma lock_path_not_prefix:
  "\<not> prefix (path_of (lock_file_of d n)) (path_of d)"
proof
  assume "prefix (path_of (lock_file_of d n)) (path_of d)"
  then have "prefix (concat (path_of (lock_file_of d n))) (concat (path_of d))"
    by (rule prefix_concat)
  then have "length (concat (path_of (lock_file_of d n))) \<le> length (concat (path_of d))"
    by (rule prefix_length_le)
  then show False
    by (simp add: concat_path_of lock_file_of_def lock_file_name_of_def)
qed

lemma lock_path_nonempty: "path_of (lock_file_of d n) \<noteq> []"
  using lock_path_not_prefix [of d n] by auto

lemma os_mkdir_frame:
  "os_mkdir p fs = (e, fs') \<Longrightarrow> fs' q = fs q \<or> (fs q = None \<and> fs' q = Some (Dir True) \<and> q = p)"
  by (auto simp: os_mkdir_def node_at_def split: option.splits if_splits)

lemma makedirs_at_frame:
  "makedirs_at p fs = (e, fs') \<Longrightarrow> fs' q = fs q \<or> (fs q = None \<and> fs' q = Some (Dir True) \<and> prefix q p)"
proof (induction p fs arbitrary: e fs' rule: makedirs_at.induct)
  case (1 p fs)
  show ?case
  proof (cases "p \<noteq> [] \<and> butlast p \<noteq> [] \<and> node_at fs (butlast p) = None")
    case False
    with "1.prems" have "os_mkdir p fs = (e, fs')"
      by (simp add: makedirs_at.simps [of p fs])
    from os_mkdir_frame [OF this, of q] show ?thesis by auto
  next
    case True
    obtain e1 fs1 where r: "makedirs_at (butlast p) fs = (e1, fs1)"
      by (cases "makedirs_at (butlast p) fs")
    have ih: "fs1 q = fs q \<or> (fs q = None \<and> fs1 q = Some (Dir True) \<and> prefix q (butlast p))"
      using "1.IH" [OF True r] .
    have pb: "prefix (butlast p) p"
      by (simp add: prefixeq_butlast)
    show ?thesis
    proof (cases "e1 = None \<or> e1 = Some EEXIST")
      case False
      with True r "1.prems" have "fs' = fs1"
        by (auto simp add: makedirs_at.simps [of p fs] split: option.splits if_splits)
      with ih pb show ?thesis by (auto intro: prefix_order.trans)
    next
      case okk: True
      with True r "1.prems" have "os_mkdir p fs1 = (e, fs')"
        by (auto simp add: makedirs_at.simps [of p fs] split: option.splits if_splits)
      from os_mkdir_frame [OF this, of q] ih pb show ?thesis
        by (auto intro: prefix_order.trans)
    qed
  qed
qed

lemma dict_get_update2:
  "dict_get (dict_update md [(k1, v1), (k2, v2)]) k =
     (if k = k2 then Some v2 else if k = k1 then Some v1 else dict_get md k)"
  by (simp add: dict_update_Cons dict_update_Nil dict_get_dict_set)

lemma dict_get_update1:
  "dict_get (dict_update md [(k1, v1)]) k = (if k = k1 then Some v1 else dict_get md k)"
  by (simp add: dict_update_Cons dict_update_Nil dict_get_dict_set)

subsection \<open>The directory bootstrap and the lock path\<close>

lemma create_lock_dir_frame:
  "create_lock_dir d fs = (e, fs1) \<Longrightarrow>
     fs1 q = fs q \<or> (fs q = None \<and> fs1 q = Some (Dir True) \<and> prefix q (path_of d))"
proof -
  assume a: "create_lock_dir d fs = (e, fs1)"
  show ?thesis
  proof (cases "d = []")
    case True
    with a show ?thesis by (simp add: create_lock_dir_def os_makedirs_def)
  next
    case False
    obtain e0 fs0 where m: "makedirs_at (path_of d) fs = (e0, fs0)"
      by (cases "makedirs_at (path_of d) fs")
    with a False have "fs1 = fs0"
      by (auto simp: create_lock_dir_def os_makedirs_def split: option.splits if_splits)
    with makedirs_at_frame [OF m, of q] show ?thesis by simp
  qed
qed

lemma create_lock_dir_only_dirs: "create_lock_dir d fs = (e, fs1) \<Longrightarrow> only_dirs_added fs fs1"
  unfolding only_dirs_added_def using create_lock_dir_frame by blast

lemma create_lock_dir_lock_path:
  "create_lock_dir d fs = (e, fs1) \<Longrightarrow> fs1 (path_of (lock_file_of d n)) = fs (path_of (lock_file_of d n))"
  using create_lock_dir_frame [of d fs e fs1 "path_of (lock_file_of d n)"] lock_path_not_prefix [of d n]
  by auto

lemma is_locked_iff:
  "is_locked (lock_file_of d n) fs \<longleftrightarrow>
     (\<exists>w c. fs (path_of (lock_file_of d n)) = Some (File True w c))"
  by (auto simp: is_locked_def os_open_read_def node_at_def lock_path_nonempty
        split: option.splits node.splits)

lemma is_locked_same_node:
  "fs1 (path_of (lock_file_of d n)) = fs (path_of (lock_file_of d n)) \<Longrightarrow>
     is_locked (lock_file_of d n) fs1 = is_locked (lock_file_of d n) fs"
  by (simp add: is_locked_iff)

lemma persisted_lock_path:
  "persisted (lock_file_of d n) fs =
     (case fs (path_of (lock_file_of d n)) of Some (File r w c) \<Rightarrow> c | _ \<Rightarrow> None)"
  by (simp add: persisted_def node_at_def lock_path_nonempty)

lemma makedirs_at_exists:
  "makedirs_at p fs = (e, fs') \<Longrightarrow> e = None \<or> e = Some EEXIST \<Longrightarrow>
     node_at fs' p \<noteq> None \<and> node_at fs' (butlast p) \<noteq> None"
proof (induction p fs arbitrary: e fs' rule: makedirs_at.induct)
  case (1 p fs)
  show ?case
  proof (cases "p \<noteq> [] \<and> butlast p \<noteq> [] \<and> node_at fs (butlast p) = None")
    case False
    with "1.prems" have m: "os_mkdir p fs = (e, fs')"
      by (simp add: makedirs_at.simps [of p fs])
    from False have "node_at fs (butlast p) \<noteq> None"
      by (auto simp: node_at_def)
    with m "1.prems"(2) show ?thesis
      by (auto simp: os_mkdir_def may_create_def node_at_def split: option.splits node.splits if_splits)
  next
    case True
    obtain e1 fs1 where r: "makedirs_at (butlast p) fs = (e1, fs1)"
      by (cases "makedirs_at (butlast p) fs")
    from True r "1.prems" have ok1: "e1 = None \<or> e1 = Some EEXIST"
      by (auto simp add: makedirs_at.simps [of p fs] split: option.splits if_splits)
    with True r "1.prems" have m: "os_mkdir p fs1 = (e, fs')"
      by (auto simp add: makedirs_at.simps [of p fs] split: option.splits if_splits)
    from "1.IH" [OF True r ok1] have "node_at fs1 (butlast p) \<noteq> None" by simp
    with m "1.prems"(2) True show ?thesis
      by (auto simp: os_mkdir_def may_create_def node_at_def split: option.splits node.splits if_splits)
  qed
qed

lemma makedirs_at_again:
  "node_at fs p \<noteq> None \<Longrightarrow> node_at fs (butlast p) \<noteq> None \<Longrightarrow> makedirs_at p fs = (Some EEXIST, fs)"
  by (auto simp: makedirs_at.simps [of p fs] os_mkdir_def split: option.splits)

lemma create_lock_dir_again:
  assumes "create_lock_dir d fs = (None, fs1)"
    and "fs2 (path_of d) = fs1 (path_of d)"
    and "fs2 (butlast (path_of d)) = fs1 (butlast (path_of d))"
  shows "create_lock_dir d fs2 = (None, fs2)"
proof -
  from assms(1) have d: "d \<noteq> []"
    by (auto simp: create_lock_dir_def os_makedirs_def)
  obtain e0 fs0 where m: "makedirs_at (path_of d) fs = (e0, fs0)"
    by (cases "makedirs_at (path_of d) fs")
  with assms(1) d have "fs0 = fs1" and "e0 = None \<or> e0 = Some EEXIST"
    by (auto simp: create_lock_dir_def os_makedirs_def split: option.splits if_splits)
  with makedirs_at_exists [OF m] have
    "node_at fs1 (path_of d) \<noteq> None" "node_at fs1 (butlast (path_of d)) \<noteq> None"
    by auto
  with assms(2,3) have "node_at fs2 (path_of d) \<noteq> None" "node_at fs2 (butlast (path_of d)) \<noteq> None"
    by (auto simp: node_at_def)
  then have "makedirs_at (path_of d) fs2 = (Some EEXIST, fs2)"
    by (rule makedirs_at_again)
  with d show ?thesis
    by (simp add: create_lock_dir_def os_makedirs_def)
qed

lemma lock_path_not_dir_path:
  "path_of (lock_file_of d n) \<noteq> path_of d" "path_of (lock_file_of d n) \<noteq> butlast (path_of d)"
  using lock_path_not_prefix [of d n] prefixeq_butlast [of "path_of d"] by auto

lemma create_lock_dir_existing:
  assumes "create_lock_dir d fs = (None, fs1)"
    and "node_at fs (path_of d) \<noteq> None" and "node_at fs (butlast (path_of d)) \<noteq> None"
  shows "fs1 = fs"
proof -
  from assms(1) have d: "d \<noteq> []"
    by (auto simp: create_lock_dir_def os_makedirs_def)
  from makedirs_at_again [OF assms(2,3)] d assms(1) show ?thesis
    by (simp add: create_lock_dir_def os_makedirs_def)
qed

lemma only_dirs_added_files:
  "only_dirs_added fs fs1 \<Longrightarrow> (fs1 q = Some (File r w c)) = (fs q = Some (File r w c))"
  unfolding only_dirs_added_def by (metis node.distinct(1) option.distinct(1) option.inject)


subsection \<open>The branches of lock\<close>

lemma lock_bootstrap_raises:
  "create_lock_dir d fs = (Some e, fs1) \<Longrightarrow> lock d n md a eu el fs = (Some e, md, fs1)"
  by (simp add: lock_def)

lemma lock_status:
  "create_lock_dir d fs = (None, fs1) \<Longrightarrow>
   lock d n md ''status'' eu el fs =
     (None,
      dict_update
        (dict_update md
           (if is_locked (lock_file_of d n) fs1
            then [(''lock_file_location'', PyStr (lock_file_of d n)),
                  (''lock_file_status'', PyStr ''locked'')]
            else [(''lock_file_location'', PyNone),
                  (''lock_file_status'', PyStr ''unlocked'')]))
        [(''lock_action'', PyStr ''status'')],
      fs1)"
  by (simp add: lock_def Let_def)

lemma lock_invalid:
  "create_lock_dir d fs = (None, fs1) \<Longrightarrow> a \<noteq> ''status'' \<Longrightarrow> a \<noteq> ''unlock'' \<Longrightarrow> a \<noteq> ''lock'' \<Longrightarrow>
   lock d n md a eu el fs = (Some LockActionError, md, fs1)"
  by (simp add: lock_def Let_def)

lemma remove_lock_file_lock_path:
  "remove_lock_file (lock_file_of d n) fs =
     (case fs (path_of (lock_file_of d n)) of
        Some (File r w c) \<Rightarrow>
          (case node_at fs (butlast (path_of (lock_file_of d n))) of
             Some (Dir dw) \<Rightarrow>
               if dw then (None, fs(path_of (lock_file_of d n) := None))
               else (Some (OSError EACCES), fs)
           | Some (File r' w' c') \<Rightarrow> (Some (OSError ENOTDIR), fs)
           | None \<Rightarrow> (Some (OSError ENOENT), fs))
      | Some (Dir dw) \<Rightarrow> (Some (OSError EISDIR), fs)
      | None \<Rightarrow> (Some (OSError (lookup_errno (path_of (lock_file_of d n)) fs)), fs))"
  by (simp add: remove_lock_file_def os_remove_def node_at_def lock_path_nonempty
           split: option.splits node.splits)

lemma lock_unlock:
  "create_lock_dir d fs = (None, fs1) \<Longrightarrow>
   lock d n md ''unlock'' eu el fs =
     (if el \<and> \<not> is_locked (lock_file_of d n) fs1 then (Some LockFileNotPresentError, md, fs1)
      else case remove_lock_file (lock_file_of d n) fs1 of
             (None, fs2) \<Rightarrow>
               (None,
                dict_update
                  (dict_update md [(''lock_file_location'', PyNone),
                                   (''lock_file_status'', PyStr ''unlocked'')])
                  [(''lock_action'', PyStr ''unlock'')],
                fs1(path_of (lock_file_of d n) := None))
           | (Some e, fs2) \<Rightarrow> (Some LockFileNotPresentError, md, fs1))"
  by (auto simp add: lock_def Let_def ensure_lock_def remove_lock_file_lock_path is_locked_iff
           split: option.splits node.splits if_splits)

lemma create_lock_file_lock_path:
  "create_lock_file (lock_file_of d n) fs =
     (case fs (path_of (lock_file_of d n)) of
        Some (File r w c) \<Rightarrow> if w then (None, fs) else (Some (OSError EACCES), fs)
      | Some (Dir dw) \<Rightarrow> (Some (OSError EISDIR), fs)
      | None \<Rightarrow>
          (case may_create (path_of (lock_file_of d n)) fs of
             Some e \<Rightarrow> (Some (OSError e), fs)
           | None \<Rightarrow> (None, fs(path_of (lock_file_of d n) \<mapsto> File True True None))))"
  by (simp add: create_lock_file_def os_open_append_def os_open_create_def node_at_def
        lock_path_nonempty split: option.splits node.splits)

lemma write_to_lock_file_existing:
  "fs (path_of (lock_file_of d n)) = Some (File r True c) \<Longrightarrow>
   write_to_lock_file d n data fs =
     (None, fs(path_of (lock_file_of d n) \<mapsto> File r True (Some data)))"
  using lock_path_nonempty [of d n]
  by (simp add: write_to_lock_file_def os_open_write_dump_def os_open_create_def node_at_def
        lock_file_of_def lock_file_name_of_def)

lemma lock_lock:
  "create_lock_dir d fs = (None, fs1) \<Longrightarrow>
   lock d n md ''lock'' eu el fs =
     (let merged = dict_update md [(''lock_file_location'', PyStr (lock_file_of d n)),
                                   (''lock_file_status'', PyStr ''locked'')];
          returned = dict_update merged [(''lock_action'', PyStr ''lock'')];
          written = fs1(path_of (lock_file_of d n) \<mapsto> File True True (Some merged))
      in if eu \<and> is_locked (lock_file_of d n) fs1 then (Some LockFilePresentError, md, fs1)
         else case fs1 (path_of (lock_file_of d n)) of
                Some (File r w c) \<Rightarrow>
                  if \<not> w then (Some (OSError EACCES), md, fs1)
                  else if r then (None, returned, written)
                  else (Some LockFileNotPresentError, merged,
                        fs1(path_of (lock_file_of d n) \<mapsto> File False True (Some merged)))
              | Some (Dir dw) \<Rightarrow> (Some (OSError EISDIR), md, fs1)
              | None \<Rightarrow>
                  (case may_create (path_of (lock_file_of d n)) fs1 of
                     Some e \<Rightarrow> (Some (OSError e), md, fs1)
                   | None \<Rightarrow> (None, returned, written)))"
  by (auto simp add: lock_def Let_def ensure_unlock_def create_lock_file_lock_path
        write_to_lock_file_existing is_locked_iff
        split: option.splits node.splits)

lemma lock_lock_returns:
  assumes "lock d n md ''lock'' eu el fs = (None, md', fs')"
  shows "md' = dict_update
                 (dict_update md [(''lock_file_location'', PyStr (lock_file_of d n)),
                                  (''lock_file_status'', PyStr ''locked'')])
                 [(''lock_action'', PyStr ''lock'')]"
    and "fs' = (snd (create_lock_dir d fs))
                 (path_of (lock_file_of d n) \<mapsto>
                    File True True (Some (dict_update md
                      [(''lock_file_location'', PyStr (lock_file_of d n)),
                       (''lock_file_status'', PyStr ''locked'')])))"
    and "fst (create_lock_dir d fs) = None"
proof -
  obtain e0 fs1 where c: "create_lock_dir d fs = (e0, fs1)"
    by (cases "create_lock_dir d fs")
  have e0: "e0 = None"
  proof (cases e0)
    case (Some e)
    with c lock_bootstrap_raises [of d fs e fs1 n md "''lock''" eu el] assms show ?thesis by simp
  qed simp
  with c show "fst (create_lock_dir d fs) = None" by simp
  from c e0 have c': "create_lock_dir d fs = (None, fs1)" by simp
  from lock_lock [OF c', of n md eu el] assms
  show "md' = dict_update
                 (dict_update md [(''lock_file_location'', PyStr (lock_file_of d n)),
                                  (''lock_file_status'', PyStr ''locked'')])
                 [(''lock_action'', PyStr ''lock'')]"
    by (auto simp: Let_def split: if_splits option.splits node.splits)
  from lock_lock [OF c', of n md eu el] assms c'
  show "fs' = (snd (create_lock_dir d fs))
                 (path_of (lock_file_of d n) \<mapsto>
                    File True True (Some (dict_update md
                      [(''lock_file_location'', PyStr (lock_file_of d n)),
                       (''lock_file_status'', PyStr ''locked'')])))"
    by (auto simp: Let_def split: if_splits option.splits node.splits)
qed




lemma lock_unlock_returns:
  assumes "lock d n md ''unlock'' eu el fs = (None, md', fs')"
  shows "fs' = (snd (create_lock_dir d fs))(path_of (lock_file_of d n) := None)"
    and "fst (create_lock_dir d fs) = None"
proof -
  obtain e0 fs1 where c: "create_lock_dir d fs = (e0, fs1)"
    by (cases "create_lock_dir d fs")
  have e0: "e0 = None"
  proof (cases e0)
    case (Some e)
    with c lock_bootstrap_raises [of d fs e fs1 n md "''unlock''" eu el] assms show ?thesis
      by simp
  qed simp
  with c show "fst (create_lock_dir d fs) = None" by simp
  from c e0 have c': "create_lock_dir d fs = (None, fs1)" by simp
  from lock_unlock [OF c', of n md eu el] assms c'
  show "fs' = (snd (create_lock_dir d fs))(path_of (lock_file_of d n) := None)"
    by (auto split: if_splits prod.splits option.splits)
qed

text \<open>Facts for evaluating the model on concrete paths and file systems.\<close>

lemmas path_eval = path_of_def lock_file_of_def lock_file_name_of_def
lemmas fs_eval = create_lock_dir_def os_makedirs_def makedirs_at.simps os_mkdir_def node_at_def
  may_create_def name_max_def

section \<open>The claims\<close>

subsection \<open>C1: what the lock file holds\<close>

text \<open>
  Claim C1, as stated, fails: a lock taken with the metadata
  \<^verbatim>\<open>{msg: "maintenance", expire: "2099-01-01"}\<close> returns a dictionary with
  \<^verbatim>\<open>lock_action: "lock"\<close>, but the file holds no \<^verbatim>\<open>lock_action\<close> key: the
  file is written before that key is set.
\<close>

theorem lock_persists_lock_action_counterexample:
  "fst (lock ''/tmp/locks/'' ''server''
          [(''msg'', PyStr ''maintenance''), (''expire'', PyStr ''2099-01-01'')]
          ''lock'' False False Map.empty) = None
   \<and> persisted ''/tmp/locks/server.lock''
         (snd (snd (lock ''/tmp/locks/'' ''server''
            [(''msg'', PyStr ''maintenance''), (''expire'', PyStr ''2099-01-01'')]
            ''lock'' False False Map.empty)))
       = Some [(''msg'', PyStr ''maintenance''), (''expire'', PyStr ''2099-01-01''),
               (''lock_file_location'', PyStr ''/tmp/locks/server.lock''),
               (''lock_file_status'', PyStr ''locked'')]
   \<and> dict_get [(''msg'', PyStr ''maintenance''), (''expire'', PyStr ''2099-01-01''),
                (''lock_file_location'', PyStr ''/tmp/locks/server.lock''),
                (''lock_file_status'', PyStr ''locked'')] ''lock_action'' = None
   \<and> dict_get (fst (snd (lock ''/tmp/locks/'' ''server''
          [(''msg'', PyStr ''maintenance''), (''expire'', PyStr ''2099-01-01'')]
          ''lock'' False False Map.empty))) ''lock_action'' = Some (PyStr ''lock'')"
proof -
  have h: "create_lock_dir ''/tmp/locks/'' Map.empty
             = (None, [[''tmp''] \<mapsto> Dir True, [''tmp'', ''locks''] \<mapsto> Dir True])"
    by (simp add: fs_eval path_eval)
  have p: "lock_file_of ''/tmp/locks/'' ''server'' = ''/tmp/locks/server.lock''"
    by (simp add: path_eval)
  have q: "path_of ''/tmp/locks/server.lock'' = [''tmp'', ''locks'', ''server.lock'']"
    by (simp add: path_eval)
  have r: "lock ''/tmp/locks/'' ''server''
             [(''msg'', PyStr ''maintenance''), (''expire'', PyStr ''2099-01-01'')]
             ''lock'' False False Map.empty
           = (None,
              [(''msg'', PyStr ''maintenance''), (''expire'', PyStr ''2099-01-01''),
               (''lock_file_location'', PyStr ''/tmp/locks/server.lock''),
               (''lock_file_status'', PyStr ''locked''),
               (''lock_action'', PyStr ''lock'')],
              [[''tmp''] \<mapsto> Dir True, [''tmp'', ''locks''] \<mapsto> Dir True,
               [''tmp'', ''locks'', ''server.lock''] \<mapsto>
                 File True True (Some [(''msg'', PyStr ''maintenance''),
                                  (''expire'', PyStr ''2099-01-01''),
                                  (''lock_file_location'', PyStr ''/tmp/locks/server.lock''),
                                  (''lock_file_status'', PyStr ''locked'')])])"
    by (simp add: lock_lock [OF h] p q Let_def node_at_def may_create_def name_max_def dict_update_def)
  show ?thesis
    by (simp add: r persisted_def q node_at_def dict_get_def)
qed

text \<open>
  Claim C1, amended. Whenever the lock action returns, what is read from the lock file
  is the supplied metadata updated with \<^verbatim>\<open>lock_file_location\<close> (the lock path) and
  \<^verbatim>\<open>lock_file_status: "locked"\<close>: it has these two pairs and every supplied pair
  under any other key. The key \<^verbatim>\<open>lock_action\<close> is in the file only when it was
  supplied, with the supplied value; \<^verbatim>\<open>lock_action: "lock"\<close> is set in the
  returned dictionary alone.
\<close>

theorem lock_persists_merged_metadata:
  assumes "lock d n md ''lock'' eu el fs = (None, md', fs')"
  shows "\<exists>data.
           persisted (lock_file_of d n) fs' = Some data
           \<and> data = dict_update md [(''lock_file_location'', PyStr (lock_file_of d n)),
                                     (''lock_file_status'', PyStr ''locked'')]
           \<and> dict_get data ''lock_file_status'' = Some (PyStr ''locked'')
           \<and> dict_get data ''lock_file_location'' = Some (PyStr (lock_file_of d n))
           \<and> (\<forall>k v. k \<noteq> ''lock_file_location'' \<and> k \<noteq> ''lock_file_status''
                      \<and> dict_get md k = Some v \<longrightarrow> dict_get data k = Some v)
           \<and> dict_get data ''lock_action'' = dict_get md ''lock_action''
           \<and> md' = dict_update data [(''lock_action'', PyStr ''lock'')]
           \<and> dict_get md' ''lock_action'' = Some (PyStr ''lock'')"
proof -
  let ?data = "dict_update md [(''lock_file_location'', PyStr (lock_file_of d n)),
                               (''lock_file_status'', PyStr ''locked'')]"
  from lock_lock_returns(2) [OF assms]
  have "persisted (lock_file_of d n) fs' = Some ?data"
    by (simp add: persisted_lock_path)
  moreover from lock_lock_returns(1) [OF assms]
  have "md' = dict_update ?data [(''lock_action'', PyStr ''lock'')]" .
  ultimately show ?thesis
    by (simp add: dict_get_update2 dict_get_update1)
qed

theorem lock_persists_merged_metadata_witness:
  "lock ''/tmp/locks/'' ''server''
     [(''msg'', PyStr ''maintenance''), (''lock_action'', PyStr ''lock'')]
     ''lock'' False False Map.empty
   = (None,
      [(''msg'', PyStr ''maintenance''), (''lock_action'', PyStr ''lock''),
       (''lock_file_location'', PyStr ''/tmp/locks/server.lock''),
       (''lock_file_status'', PyStr ''locked'')],
      [[''tmp''] \<mapsto> Dir True, [''tmp'', ''locks''] \<mapsto> Dir True,
       [''tmp'', ''locks'', ''server.lock''] \<mapsto>
         File True True (Some [(''msg'', PyStr ''maintenance''), (''lock_action'', PyStr ''lock''),
                          (''lock_file_location'', PyStr ''/tmp/locks/server.lock''),
                          (''lock_file_status'', PyStr ''locked'')])])
   \<and> persisted ''/tmp/locks/server.lock''
        [[''tmp''] \<mapsto> Dir True, [''tmp'', ''locks''] \<mapsto> Dir True,
         [''tmp'', ''locks'', ''server.lock''] \<mapsto>
           File True True (Some [(''msg'', PyStr ''maintenance''), (''lock_action'', PyStr ''lock''),
                            (''lock_file_location'', PyStr ''/tmp/locks/server.lock''),
                            (''lock_file_status'', PyStr ''locked'')])]
      = Some [(''msg'', PyStr ''maintenance''), (''lock_action'', PyStr ''lock''),
              (''lock_file_location'', PyStr ''/tmp/locks/server.lock''),
              (''lock_file_status'', PyStr ''locked'')]"
proof -
  have h: "create_lock_dir ''/tmp/locks/'' Map.empty
             = (None, [[''tmp''] \<mapsto> Dir True, [''tmp'', ''locks''] \<mapsto> Dir True])"
    by (simp add: fs_eval path_eval)
  have p: "lock_file_of ''/tmp/locks/'' ''server'' = ''/tmp/locks/server.lock''"
    by (simp add: path_eval)
  have q: "path_of ''/tmp/locks/server.lock'' = [''tmp'', ''locks'', ''server.lock'']"
    by (simp add: path_eval)
  have r: "lock ''/tmp/locks/'' ''server''
             [(''msg'', PyStr ''maintenance''), (''lock_action'', PyStr ''lock'')]
             ''lock'' False False Map.empty
           = (None,
              [(''msg'', PyStr ''maintenance''), (''lock_action'', PyStr ''lock''),
               (''lock_file_location'', PyStr ''/tmp/locks/server.lock''),
               (''lock_file_status'', PyStr ''locked'')],
              [[''tmp''] \<mapsto> Dir True, [''tmp'', ''locks''] \<mapsto> Dir True,
               [''tmp'', ''locks'', ''server.lock''] \<mapsto>
                 File True True (Some [(''msg'', PyStr ''maintenance''),
                                  (''lock_action'', PyStr ''lock''),
                                  (''lock_file_location'', PyStr ''/tmp/locks/server.lock''),
                                  (''lock_file_status'', PyStr ''locked'')])])"
    by (simp add: lock_lock [OF h] p q Let_def node_at_def may_create_def name_max_def dict_update_def)
  from lock_persists_merged_metadata [OF r] have
    "persisted ''/tmp/locks/server.lock''
        [[''tmp''] \<mapsto> Dir True, [''tmp'', ''locks''] \<mapsto> Dir True,
         [''tmp'', ''locks'', ''server.lock''] \<mapsto>
           File True True (Some [(''msg'', PyStr ''maintenance''), (''lock_action'', PyStr ''lock''),
                            (''lock_file_location'', PyStr ''/tmp/locks/server.lock''),
                            (''lock_file_status'', PyStr ''locked'')])]
      = Some [(''msg'', PyStr ''maintenance''), (''lock_action'', PyStr ''lock''),
              (''lock_file_location'', PyStr ''/tmp/locks/server.lock''),
              (''lock_file_status'', PyStr ''locked'')]"
    by (simp add: p dict_update_def)
  with r show ?thesis by simp
qed

subsection \<open>C2: error kinds\<close>

text \<open>
  Claim C2, as stated, fails: the unlock action that finds no lock although
  \<^verbatim>\<open>ensure_lock_state\<close> is set (NotLocked) and the lock action whose file cannot
  be opened for reading after it was written (LockCreationFailed) raise one and the
  same exception, \<^verbatim>\<open>LockFileNotPresentError\<close>.
\<close>

theorem error_kinds_distinct_counterexample:
  "fst (lock ''/tmp/locks/'' ''a'' [] ''unlock'' False True Map.empty)
     = Some LockFileNotPresentError
   \<and> fst (lock ''/tmp/locks/'' ''a'' [] ''lock'' False False
          [[''tmp''] \<mapsto> Dir True, [''tmp'', ''locks''] \<mapsto> Dir True,
           [''tmp'', ''locks'', ''a.lock''] \<mapsto> File False True None])
     = Some LockFileNotPresentError"
proof -
  let ?fs1 = "[[''tmp''] \<mapsto> Dir True, [''tmp'', ''locks''] \<mapsto> Dir True] :: fs"
  let ?fs2 = "[[''tmp''] \<mapsto> Dir True, [''tmp'', ''locks''] \<mapsto> Dir True,
               [''tmp'', ''locks'', ''a.lock''] \<mapsto> File False True None]"
  have h: "create_lock_dir ''/tmp/locks/'' Map.empty = (None, ?fs1)"
    by (simp add: fs_eval path_eval)
  have h2: "create_lock_dir ''/tmp/locks/'' ?fs2 = (None, ?fs2)"
    by (simp add: fs_eval path_eval)
  have p: "lock_file_of ''/tmp/locks/'' ''a'' = ''/tmp/locks/a.lock''"
    by (simp add: path_eval)
  have q: "path_of ''/tmp/locks/a.lock'' = [''tmp'', ''locks'', ''a.lock'']"
    by (simp add: path_eval)
  have l: "\<not> is_locked ''/tmp/locks/a.lock'' ?fs1" "\<not> is_locked ''/tmp/locks/a.lock'' ?fs2"
    by (simp_all add: is_locked_def os_open_read_def node_at_def q)
  have a: "fst (lock ''/tmp/locks/'' ''a'' [] ''unlock'' False True Map.empty)
             = Some LockFileNotPresentError"
    by (simp add: lock_unlock [OF h] p q l)
  have c: "fst (lock ''/tmp/locks/'' ''a'' [] ''lock'' False False ?fs2)
             = Some LockFileNotPresentError"
    by (simp add: lock_lock [OF h2] p q l Let_def)
  from a c show ?thesis by blast
qed

text \<open>
  Claim C2, amended. The failures of the controller are raised as these exceptions:
  \<^item> a directory bootstrap that fails raises the \<^verbatim>\<open>OSError\<close> it got, whatever the
    action is;
  and when the bootstrap has not raised,
  \<^item> the unlock action with \<^verbatim>\<open>ensure_lock_state\<close> on a resource that is not locked
    (NotLocked) and the lock action on a lock file that the process can write but not
    read (LockCreationFailed) both raise \<^verbatim>\<open>LockFileNotPresentError\<close>;
  \<^item> the lock action with \<^verbatim>\<open>ensure_unlock_state\<close> on a locked resource
    (AlreadyLocked) raises \<^verbatim>\<open>LockFilePresentError\<close>;
  \<^item> an action other than the three (InvalidAction) raises \<^verbatim>\<open>LockActionError\<close>.
  What the unlock action raises when the removal fails, or when the file is still there
  after the removal, is left open here.
\<close>

theorem lock_error_kinds:
  "(\<forall>e fs1. create_lock_dir d fs = (Some e, fs1) \<longrightarrow>
       fst (lock d n md a eu el fs) = Some e \<and> (\<exists>k. e = OSError k))
   \<and> (fst (create_lock_dir d fs) = None \<and> \<not> is_locked (lock_file_of d n) fs \<longrightarrow>
       fst (lock d n md ''unlock'' eu True fs) = Some LockFileNotPresentError)
   \<and> (fst (create_lock_dir d fs) = None
        \<and> (\<exists>c. fs (path_of (lock_file_of d n)) = Some (File False True c)) \<longrightarrow>
       fst (lock d n md ''lock'' eu el fs) = Some LockFileNotPresentError)
   \<and> (fst (create_lock_dir d fs) = None \<and> is_locked (lock_file_of d n) fs \<longrightarrow>
       fst (lock d n md ''lock'' True el fs) = Some LockFilePresentError)
   \<and> (fst (create_lock_dir d fs) = None
        \<and> a \<noteq> ''status'' \<and> a \<noteq> ''unlock'' \<and> a \<noteq> ''lock'' \<longrightarrow>
       fst (lock d n md a eu el fs) = Some LockActionError)"
proof -
  obtain e0 fs1 where c: "create_lock_dir d fs = (e0, fs1)"
    by (cases "create_lock_dir d fs")
  show ?thesis
  proof (cases e0)
    case (Some e)
    from c Some have "\<exists>k. e = OSError k"
      by (auto simp: create_lock_dir_def split: prod.splits option.splits if_splits)
    with c Some lock_bootstrap_raises [of d fs e fs1 n md a eu el] show ?thesis
      by simp
  next
    case None
    with c have c': "create_lock_dir d fs = (None, fs1)" by simp
    have same: "fs1 (path_of (lock_file_of d n)) = fs (path_of (lock_file_of d n))"
      using c' by (rule create_lock_dir_lock_path)
    have l: "is_locked (lock_file_of d n) fs1 = is_locked (lock_file_of d n) fs"
      using same by (rule is_locked_same_node)
    have 1: "\<not> is_locked (lock_file_of d n) fs \<Longrightarrow>
               fst (lock d n md ''unlock'' eu True fs) = Some LockFileNotPresentError"
      using lock_unlock [OF c', of n md eu True] l by simp
    have 3: "\<exists>c. fs (path_of (lock_file_of d n)) = Some (File False True c) \<Longrightarrow>
               fst (lock d n md ''lock'' eu el fs) = Some LockFileNotPresentError"
      using lock_lock [OF c', of n md eu el] same
      by (auto simp: Let_def is_locked_iff)
    have 4: "is_locked (lock_file_of d n) fs \<Longrightarrow>
               fst (lock d n md ''lock'' True el fs) = Some LockFilePresentError"
      using lock_lock [OF c', of n md True el] l by (simp add: Let_def)
    have 5: "a \<noteq> ''status'' \<and> a \<noteq> ''unlock'' \<and> a \<noteq> ''lock'' \<Longrightarrow>
               fst (lock d n md a eu el fs) = Some LockActionError"
      using lock_invalid [OF c', of a n md eu el] by simp
    from 1 3 4 5 c' show ?thesis by simp
  qed
qed

theorem lock_error_kinds_witness:
  "create_lock_dir ''/tmp/locks/sub/''
      [[''tmp''] \<mapsto> Dir True, [''tmp'', ''locks''] \<mapsto> File True True None]
     = (Some (OSError ENOTDIR),
        [[''tmp''] \<mapsto> Dir True, [''tmp'', ''locks''] \<mapsto> File True True None])
   \<and> fst (lock ''/tmp/locks/sub/'' ''a'' [] ''unlock'' True False
          [[''tmp''] \<mapsto> Dir True, [''tmp'', ''locks''] \<mapsto> File True True None])
     = Some (OSError ENOTDIR)
   \<and> fst (create_lock_dir ''/tmp/locks/''
          [[''tmp''] \<mapsto> Dir True, [''tmp'', ''locks''] \<mapsto> Dir True,
           [''tmp'', ''locks'', ''a.lock''] \<mapsto> File False True None]) = None
   \<and> \<not> is_locked (lock_file_of ''/tmp/locks/'' ''a'')
         [[''tmp''] \<mapsto> Dir True, [''tmp'', ''locks''] \<mapsto> Dir True,
          [''tmp'', ''locks'', ''a.lock''] \<mapsto> File False True None]
   \<and> fst (lock ''/tmp/locks/'' ''a'' [] ''unlock'' True True
          [[''tmp''] \<mapsto> Dir True, [''tmp'', ''locks''] \<mapsto> Dir True,
           [''tmp'', ''locks'', ''a.lock''] \<mapsto> File False True None])
     = Some LockFileNotPresentError
   \<and> fst (lock ''/tmp/locks/'' ''a'' [] ''lock'' True False
          [[''tmp''] \<mapsto> Dir True, [''tmp'', ''locks''] \<mapsto> Dir True,
           [''tmp'', ''locks'', ''a.lock''] \<mapsto> File False True None])
     = Some LockFileNotPresentError
   \<and> fst (lock ''/tmp/locks/'' ''a'' [] ''wipe'' True False
          [[''tmp''] \<mapsto> Dir True, [''tmp'', ''locks''] \<mapsto> Dir True,
           [''tmp'', ''locks'', ''a.lock''] \<mapsto> File False True None])
     = Some LockActionError
   \<and> fst (create_lock_dir ''/tmp/locks/''
          [[''tmp''] \<mapsto> Dir True, [''tmp'', ''locks''] \<mapsto> Dir True,
           [''tmp'', ''locks'', ''b.lock''] \<mapsto> File True True None]) = None
   \<and> is_locked (lock_file_of ''/tmp/locks/'' ''b'')
         [[''tmp''] \<mapsto> Dir True, [''tmp'', ''locks''] \<mapsto> Dir True,
          [''tmp'', ''locks'', ''b.lock''] \<mapsto> File True True None]
   \<and> fst (lock ''/tmp/locks/'' ''b'' [] ''lock'' True False
          [[''tmp''] \<mapsto> Dir True, [''tmp'', ''locks''] \<mapsto> Dir True,
           [''tmp'', ''locks'', ''b.lock''] \<mapsto> File True True None])
     = Some LockFilePresentError"
proof -
  let ?fsa = "[[''tmp''] \<mapsto> Dir True, [''tmp'', ''locks''] \<mapsto> Dir True,
               [''tmp'', ''locks'', ''a.lock''] \<mapsto> File False True None]"
  let ?fsb = "[[''tmp''] \<mapsto> Dir True, [''tmp'', ''locks''] \<mapsto> Dir True,
               [''tmp'', ''locks'', ''b.lock''] \<mapsto> File True True None]"
  let ?fsc = "[[''tmp''] \<mapsto> Dir True, [''tmp'', ''locks''] \<mapsto> File True True None]"
  have ha: "fst (create_lock_dir ''/tmp/locks/'' ?fsa) = None"
    by (simp add: fs_eval path_eval)
  have hb: "fst (create_lock_dir ''/tmp/locks/'' ?fsb) = None"
    by (simp add: fs_eval path_eval)
  have hc: "create_lock_dir ''/tmp/locks/sub/'' ?fsc = (Some (OSError ENOTDIR), ?fsc)"
    by (simp add: fs_eval path_eval)
  have qa: "path_of (lock_file_of ''/tmp/locks/'' ''a'') = [''tmp'', ''locks'', ''a.lock'']"
    by (simp add: path_eval)
  have qb: "path_of (lock_file_of ''/tmp/locks/'' ''b'') = [''tmp'', ''locks'', ''b.lock'']"
    by (simp add: path_eval)
  have la: "\<not> is_locked (lock_file_of ''/tmp/locks/'' ''a'') ?fsa"
    by (simp add: is_locked_iff qa)
  have lb: "is_locked (lock_file_of ''/tmp/locks/'' ''b'') ?fsb"
    by (simp add: is_locked_def os_open_read_def node_at_def qb)
  note ta = lock_error_kinds [where d = "''/tmp/locks/''" and fs = ?fsa and n = "''a''"
              and md = "[]" and eu = True and el = False and a = "''wipe''"]
  note tb = lock_error_kinds [where d = "''/tmp/locks/''" and fs = ?fsb and n = "''b''"
              and md = "[]" and eu = True and el = False and a = "''wipe''"]
  note tc = lock_error_kinds [where d = "''/tmp/locks/sub/''" and fs = ?fsc and n = "''a''"
              and md = "[]" and eu = True and el = False and a = "''unlock''"]
  from tc hc have 0:
    "fst (lock ''/tmp/locks/sub/'' ''a'' [] ''unlock'' True False ?fsc) = Some (OSError ENOTDIR)"
    by blast
  from ta ha la have 1:
    "fst (lock ''/tmp/locks/'' ''a'' [] ''unlock'' True True ?fsa) = Some LockFileNotPresentError"
    by blast
  from ta ha have 2:
    "fst (lock ''/tmp/locks/'' ''a'' [] ''lock'' True False ?fsa) = Some LockFileNotPresentError"
    by (simp add: qa)
  from ta ha have 3:
    "fst (lock ''/tmp/locks/'' ''a'' [] ''wipe'' True False ?fsa) = Some LockActionError"
    by simp
  from tb hb lb have 4:
    "fst (lock ''/tmp/locks/'' ''b'' [] ''lock'' True False ?fsb) = Some LockFilePresentError"
    by blast
  from hc 0 ha la 1 2 3 hb lb 4 show ?thesis by blast
qed

subsection \<open>C3: the default metadata\<close>

text \<open>
  Claim C3 does not hold of \<^verbatim>\<open>lock\<close>: the default \<^verbatim>\<open>lock_data={}\<close> is one
  dictionary for all calls. A status call on resource \<^verbatim>\<open>a\<close> without metadata
  leaves its three result pairs in that dictionary; a lock call on resource
  \<^verbatim>\<open>b\<close> without metadata then writes a lock file that holds
  \<^verbatim>\<open>lock_action: "status"\<close>, the action of the call before. The same lock call
  with an empty dictionary of its own writes no \<^verbatim>\<open>lock_action\<close>.
\<close>

theorem default_metadata_shared_between_calls:
  "fst (lock_call ''/tmp/locks/'' ''a'' None ''status'' False False world0)
     = Inr [(''lock_file_location'', PyNone),
            (''lock_file_status'', PyStr ''unlocked''),
            (''lock_action'', PyStr ''status'')]
   \<and> lock_data_default world0 = []
   \<and> lock_data_default
        (snd (lock_call ''/tmp/locks/'' ''a'' None ''status'' False False world0))
     = [(''lock_file_location'', PyNone),
        (''lock_file_status'', PyStr ''unlocked''),
        (''lock_action'', PyStr ''status'')]
   \<and> fst (lock_call ''/tmp/locks/'' ''b'' None ''lock'' False False
          (snd (lock_call ''/tmp/locks/'' ''a'' None ''status'' False False world0)))
     = Inr [(''lock_file_location'', PyStr ''/tmp/locks/b.lock''),
            (''lock_file_status'', PyStr ''locked''),
            (''lock_action'', PyStr ''lock'')]
   \<and> persisted ''/tmp/locks/b.lock''
        (filesystem (snd (lock_call ''/tmp/locks/'' ''b'' None ''lock'' False False
          (snd (lock_call ''/tmp/locks/'' ''a'' None ''status'' False False world0)))))
     = Some [(''lock_file_location'', PyStr ''/tmp/locks/b.lock''),
             (''lock_file_status'', PyStr ''locked''),
             (''lock_action'', PyStr ''status'')]
   \<and> persisted ''/tmp/locks/b.lock''
        (filesystem (snd (lock_call ''/tmp/locks/'' ''b'' (Some []) ''lock'' False False
          (snd (lock_call ''/tmp/locks/'' ''a'' None ''status'' False False world0)))))
     = Some [(''lock_file_location'', PyStr ''/tmp/locks/b.lock''),
             (''lock_file_status'', PyStr ''locked'')]"
proof -
  let ?dirs = "[[''tmp''] \<mapsto> Dir True, [''tmp'', ''locks''] \<mapsto> Dir True] :: fs"
  let ?left = "[(''lock_file_location'', PyNone),
                (''lock_file_status'', PyStr ''unlocked''),
                (''lock_action'', PyStr ''status'')]"
  have h0: "create_lock_dir ''/tmp/locks/'' Map.empty = (None, ?dirs)"
    by (simp add: fs_eval path_eval)
  have h1: "create_lock_dir ''/tmp/locks/'' ?dirs = (None, ?dirs)"
    by (simp add: fs_eval path_eval)
  have pa: "lock_file_of ''/tmp/locks/'' ''a'' = ''/tmp/locks/a.lock''"
    by (simp add: path_eval)
  have qa: "path_of ''/tmp/locks/a.lock'' = [''tmp'', ''locks'', ''a.lock'']"
    by (simp add: path_eval)
  have pb: "lock_file_of ''/tmp/locks/'' ''b'' = ''/tmp/locks/b.lock''"
    by (simp add: path_eval)
  have qb: "path_of ''/tmp/locks/b.lock'' = [''tmp'', ''locks'', ''b.lock'']"
    by (simp add: path_eval)
  have la: "\<not> is_locked ''/tmp/locks/a.lock'' ?dirs"
    by (simp add: is_locked_def os_open_read_def node_at_def qa)
  have s: "lock ''/tmp/locks/'' ''a'' [] ''status'' False False Map.empty
             = (None, ?left, ?dirs)"
    by (simp add: lock_status [OF h0] pa la dict_update_def)
  have w1: "lock_call ''/tmp/locks/'' ''a'' None ''status'' False False world0
              = (Inr ?left, \<lparr>filesystem = ?dirs, lock_data_default = ?left\<rparr>)"
    by (simp add: lock_call_def world0_def s)
  have l: "lock ''/tmp/locks/'' ''b'' ?left ''lock'' False False ?dirs
             = (None,
                [(''lock_file_location'', PyStr ''/tmp/locks/b.lock''),
                 (''lock_file_status'', PyStr ''locked''),
                 (''lock_action'', PyStr ''lock'')],
                ?dirs([''tmp'', ''locks'', ''b.lock''] \<mapsto>
                  File True True (Some [(''lock_file_location'', PyStr ''/tmp/locks/b.lock''),
                                   (''lock_file_status'', PyStr ''locked''),
                                   (''lock_action'', PyStr ''status'')])))"
    by (simp add: lock_lock [OF h1] pb qb Let_def node_at_def may_create_def name_max_def dict_update_def)
  have f: "lock ''/tmp/locks/'' ''b'' [] ''lock'' False False ?dirs
             = (None,
                [(''lock_file_location'', PyStr ''/tmp/locks/b.lock''),
                 (''lock_file_status'', PyStr ''locked''),
                 (''lock_action'', PyStr ''lock'')],
                ?dirs([''tmp'', ''locks'', ''b.lock''] \<mapsto>
                  File True True (Some [(''lock_file_location'', PyStr ''/tmp/locks/b.lock''),
                                   (''lock_file_status'', PyStr ''locked'')])))"
    by (simp add: lock_lock [OF h1] pb qb Let_def node_at_def may_create_def name_max_def dict_update_def)
  have w2: "lock_call ''/tmp/locks/'' ''b'' None ''lock'' False False
              \<lparr>filesystem = ?dirs, lock_data_default = ?left\<rparr>
            = (Inr [(''lock_file_location'', PyStr ''/tmp/locks/b.lock''),
                    (''lock_file_status'', PyStr ''locked''),
                    (''lock_action'', PyStr ''lock'')],
               \<lparr>filesystem = ?dirs([''tmp'', ''locks'', ''b.lock''] \<mapsto>
                  File True True (Some [(''lock_file_location'', PyStr ''/tmp/locks/b.lock''),
                                   (''lock_file_status'', PyStr ''locked''),
                                   (''lock_action'', PyStr ''status'')])),
                lock_data_default =
                  [(''lock_file_location'', PyStr ''/tmp/locks/b.lock''),
                   (''lock_file_status'', PyStr ''locked''),
                   (''lock_action'', PyStr ''lock'')]\<rparr>)"
    by (simp add: lock_call_def l)
  have w3: "lock_call ''/tmp/locks/'' ''b'' (Some []) ''lock'' False False
              \<lparr>filesystem = ?dirs, lock_data_default = ?left\<rparr>
            = (Inr [(''lock_file_location'', PyStr ''/tmp/locks/b.lock''),
                    (''lock_file_status'', PyStr ''locked''),
                    (''lock_action'', PyStr ''lock'')],
               \<lparr>filesystem = ?dirs([''tmp'', ''locks'', ''b.lock''] \<mapsto>
                  File True True (Some [(''lock_file_location'', PyStr ''/tmp/locks/b.lock''),
                                   (''lock_file_status'', PyStr ''locked'')])),
                lock_data_default = ?left\<rparr>)"
    by (simp add: lock_call_def f)
  have d0: "lock_data_default world0 = []"
    by (simp add: world0_def)
  show ?thesis
    by (simp add: w1 w2 w3 d0 persisted_def qb node_at_def)
qed

subsection \<open>C4: the lock path\<close>




subsection \<open>C5: the status action\<close>

text \<open>
  Claim C5, as stated, fails: it is not for every file system that the status action
  returns. Where \<^verbatim>\<open>/tmp/locks\<close> is a regular file, a status call for the
  directory \<^verbatim>\<open>/tmp/locks/sub/\<close> raises the \<^verbatim>\<open>OSError\<close> of the directory
  bootstrap (\<^verbatim>\<open>ENOTDIR\<close>) and returns nothing. And a lock file that is there but
  cannot be opened for reading is reported as "unlocked", with no location.
\<close>

theorem status_action_counterexample:
  "fst (lock ''/tmp/locks/sub/'' ''a'' [] ''status'' False False
          [[''tmp''] \<mapsto> Dir True, [''tmp'', ''locks''] \<mapsto> File True True None])
     = Some (OSError ENOTDIR)
   \<and> lock ''/tmp/locks/'' ''a'' [] ''status'' False False
         [[''tmp''] \<mapsto> Dir True, [''tmp'', ''locks''] \<mapsto> Dir True,
          [''tmp'', ''locks'', ''a.lock''] \<mapsto> File False True None]
     = (None,
        [(''lock_file_location'', PyNone),
         (''lock_file_status'', PyStr ''unlocked''),
         (''lock_action'', PyStr ''status'')],
        [[''tmp''] \<mapsto> Dir True, [''tmp'', ''locks''] \<mapsto> Dir True,
         [''tmp'', ''locks'', ''a.lock''] \<mapsto> File False True None])"
proof -
  let ?fs = "[[''tmp''] \<mapsto> Dir True, [''tmp'', ''locks''] \<mapsto> Dir True,
              [''tmp'', ''locks'', ''a.lock''] \<mapsto> File False True None]"
  have "create_lock_dir ''/tmp/locks/sub/''
          [[''tmp''] \<mapsto> Dir True, [''tmp'', ''locks''] \<mapsto> File True True None]
        = (Some (OSError ENOTDIR),
           [[''tmp''] \<mapsto> Dir True, [''tmp'', ''locks''] \<mapsto> File True True None])"
    by (simp add: fs_eval path_eval)
  then have a: "fst (lock ''/tmp/locks/sub/'' ''a'' [] ''status'' False False
                  [[''tmp''] \<mapsto> Dir True, [''tmp'', ''locks''] \<mapsto> File True True None])
                = Some (OSError ENOTDIR)"
    by (simp add: lock_bootstrap_raises)
  have h: "create_lock_dir ''/tmp/locks/'' ?fs = (None, ?fs)"
    by (simp add: fs_eval path_eval)
  have l: "\<not> is_locked (lock_file_of ''/tmp/locks/'' ''a'') ?fs"
    by (simp add: is_locked_def os_open_read_def node_at_def path_eval)
  have b: "lock ''/tmp/locks/'' ''a'' [] ''status'' False False ?fs
           = (None,
              [(''lock_file_location'', PyNone),
               (''lock_file_status'', PyStr ''unlocked''),
               (''lock_action'', PyStr ''status'')],
              ?fs)"
    by (simp add: lock_status [OF h] l dict_update_def)
  from a b show ?thesis by blast
qed

text \<open>
  Claim C5, amended. When the directory bootstrap has not raised, the status action returns,
  whatever the two precondition flags are, the input metadata updated with
  \<^verbatim>\<open>lock_file_status\<close> and \<^verbatim>\<open>lock_file_location\<close> and then with
  \<^verbatim>\<open>lock_action: "status"\<close>: "locked" and the lock path when the lock file
  exists, "unlocked" and \<^verbatim>\<open>None\<close> when it does not. The node at the lock path is
  the same before and after the call, and the file system returned is the one the
  bootstrap left. The lock file exists, for the module, when it is a regular file that
  can be opened for reading.
\<close>

theorem status_action_reads_only:
  assumes "create_lock_dir d fs = (None, fs1)"
  shows "lock d n md ''status'' eu el fs =
           (None,
            dict_update
              (dict_update md
                 (if is_locked (lock_file_of d n) fs
                  then [(''lock_file_location'', PyStr (lock_file_of d n)),
                        (''lock_file_status'', PyStr ''locked'')]
                  else [(''lock_file_location'', PyNone),
                        (''lock_file_status'', PyStr ''unlocked'')]))
              [(''lock_action'', PyStr ''status'')],
            fs1)
         \<and> fs1 (path_of (lock_file_of d n)) = fs (path_of (lock_file_of d n))
         \<and> (is_locked (lock_file_of d n) fs
              \<longleftrightarrow> (\<exists>w c. fs (path_of (lock_file_of d n)) = Some (File True w c)))"
proof -
  have same: "fs1 (path_of (lock_file_of d n)) = fs (path_of (lock_file_of d n))"
    using assms by (rule create_lock_dir_lock_path)
  then have "is_locked (lock_file_of d n) fs1 = is_locked (lock_file_of d n) fs"
    by (rule is_locked_same_node)
  with lock_status [OF assms, of n md eu el] same show ?thesis
    by (simp add: is_locked_iff)
qed

theorem status_action_reads_only_witness:
  "create_lock_dir ''/tmp/locks/''
        [[''tmp''] \<mapsto> Dir True, [''tmp'', ''locks''] \<mapsto> Dir True,
         [''tmp'', ''locks'', ''a.lock''] \<mapsto> File True True (Some [(''owner'', PyStr ''ann'')])]
     = (None,
        [[''tmp''] \<mapsto> Dir True, [''tmp'', ''locks''] \<mapsto> Dir True,
         [''tmp'', ''locks'', ''a.lock''] \<mapsto> File True True (Some [(''owner'', PyStr ''ann'')])])
   \<and>
   lock ''/tmp/locks/'' ''a'' [(''msg'', PyStr ''maintenance'')] ''status'' True True
        [[''tmp''] \<mapsto> Dir True, [''tmp'', ''locks''] \<mapsto> Dir True,
         [''tmp'', ''locks'', ''a.lock''] \<mapsto> File True True (Some [(''owner'', PyStr ''ann'')])]
     = (None,
        [(''msg'', PyStr ''maintenance''),
         (''lock_file_location'', PyStr ''/tmp/locks/a.lock''),
         (''lock_file_status'', PyStr ''locked''),
         (''lock_action'', PyStr ''status'')],
        [[''tmp''] \<mapsto> Dir True, [''tmp'', ''locks''] \<mapsto> Dir True,
         [''tmp'', ''locks'', ''a.lock''] \<mapsto> File True True (Some [(''owner'', PyStr ''ann'')])])"
proof -
  let ?fs = "[[''tmp''] \<mapsto> Dir True, [''tmp'', ''locks''] \<mapsto> Dir True,
         [''tmp'', ''locks'', ''a.lock''] \<mapsto> File True True (Some [(''owner'', PyStr ''ann'')])]"
  have h: "create_lock_dir ''/tmp/locks/'' ?fs = (None, ?fs)"
    by (simp add: fs_eval path_eval)
  have l: "is_locked (lock_file_of ''/tmp/locks/'' ''a'') ?fs"
    by (simp add: is_locked_def os_open_read_def node_at_def path_eval)
  from status_action_reads_only [OF h, of "''a''" "[(''msg'', PyStr ''maintenance'')]" True True] l h
  show ?thesis
    by (simp add: dict_update_def lock_file_of_def lock_file_name_of_def)
qed

subsection \<open>C6: locking a locked resource with the precondition flag\<close>




subsection \<open>C7: unlocking an unlocked resource with the precondition flag\<close>

text \<open>
  Claim C7, as stated, fails, in two ways. On a machine without the lock directory, the
  unlock action with \<^verbatim>\<open>ensure_lock_state=True\<close> raises
  \<^verbatim>\<open>LockFileNotPresentError\<close> and leaves the directory \<^verbatim>\<open>/tmp/locks\<close> behind,
  which was not there before. And where \<^verbatim>\<open>/tmp/locks\<close> is a regular file, the
  resource \<^verbatim>\<open>a\<close> of the directory \<^verbatim>\<open>/tmp/locks/sub/\<close> is not locked, and the
  same call raises the \<^verbatim>\<open>OSError\<close> of the directory bootstrap instead.
\<close>

theorem unlock_requires_lock_counterexample:
  "\<not> is_locked (lock_file_of ''/tmp/locks/'' ''a'') Map.empty
   \<and> fst (lock ''/tmp/locks/'' ''a'' [] ''unlock'' False True Map.empty)
       = Some LockFileNotPresentError
   \<and> (Map.empty :: fs) [''tmp'', ''locks''] = None
   \<and> snd (snd (lock ''/tmp/locks/'' ''a'' [] ''unlock'' False True Map.empty))
        [''tmp'', ''locks''] = Some (Dir True)
   \<and> \<not> is_locked (lock_file_of ''/tmp/locks/sub/'' ''a'')
         [[''tmp''] \<mapsto> Dir True, [''tmp'', ''locks''] \<mapsto> File True True None]
   \<and> fst (lock ''/tmp/locks/sub/'' ''a'' [] ''unlock'' False True
          [[''tmp''] \<mapsto> Dir True, [''tmp'', ''locks''] \<mapsto> File True True None])
       = Some (OSError ENOTDIR)"
proof -
  let ?fsc = "[[''tmp''] \<mapsto> Dir True, [''tmp'', ''locks''] \<mapsto> File True True None]"
  have h: "create_lock_dir ''/tmp/locks/'' Map.empty
             = (None, [[''tmp''] \<mapsto> Dir True, [''tmp'', ''locks''] \<mapsto> Dir True])"
    by (simp add: fs_eval path_eval)
  have l: "\<not> is_locked (lock_file_of ''/tmp/locks/'' ''a'') Map.empty"
    by (simp add: is_locked_def os_open_read_def node_at_def path_eval)
  have l1: "\<not> is_locked (lock_file_of ''/tmp/locks/'' ''a'')
               [[''tmp''] \<mapsto> Dir True, [''tmp'', ''locks''] \<mapsto> Dir True]"
    by (simp add: is_locked_def os_open_read_def node_at_def path_eval)
  from lock_unlock [OF h, of "''a''" "[]" False True] l1
  have u: "lock ''/tmp/locks/'' ''a'' [] ''unlock'' False True Map.empty
             = (Some LockFileNotPresentError, [],
                [[''tmp''] \<mapsto> Dir True, [''tmp'', ''locks''] \<mapsto> Dir True])"
    by simp
  have lc: "\<not> is_locked (lock_file_of ''/tmp/locks/sub/'' ''a'') ?fsc"
    by (simp add: is_locked_def os_open_read_def node_at_def path_eval)
  have "create_lock_dir ''/tmp/locks/sub/'' ?fsc = (Some (OSError ENOTDIR), ?fsc)"
    by (simp add: fs_eval path_eval)
  then have e: "fst (lock ''/tmp/locks/sub/'' ''a'' [] ''unlock'' False True ?fsc)
                  = Some (OSError ENOTDIR)"
    by (simp add: lock_bootstrap_raises)
  from l u lc e show ?thesis by simp
qed

text \<open>
  Claim C7, amended. On a resource whose lock file cannot be opened for reading, when
  the directory bootstrap has not raised, the unlock action with
  \<^verbatim>\<open>ensure_lock_state=True\<close> raises \<^verbatim>\<open>LockFileNotPresentError\<close> (the NotLocked
  kind) with the dictionary untouched. The file system it leaves is the one the
  bootstrap left: every node that existed is unchanged and no regular file is created,
  changed or removed; the only change there can be is the lock directory, with its
  missing ancestors, created by the bootstrap. Nothing at all is changed when the lock
  directory and its parent exist.
\<close>

theorem unlock_requires_lock:
  assumes "create_lock_dir d fs = (None, fs1)"
    and "\<not> is_locked (lock_file_of d n) fs"
  shows "lock d n md ''unlock'' eu True fs = (Some LockFileNotPresentError, md, fs1)
         \<and> only_dirs_added fs fs1
         \<and> (\<forall>q r w c. (fs1 q = Some (File r w c)) = (fs q = Some (File r w c)))
         \<and> (node_at fs (path_of d) \<noteq> None \<and> node_at fs (butlast (path_of d)) \<noteq> None
              \<longrightarrow> fs1 = fs)"
proof -
  have same: "fs1 (path_of (lock_file_of d n)) = fs (path_of (lock_file_of d n))"
    using assms(1) by (rule create_lock_dir_lock_path)
  have "\<not> is_locked (lock_file_of d n) fs1"
    using is_locked_same_node [of fs1 d n fs, OF same] assms(2) by simp
  with lock_unlock [OF assms(1), of n md eu True]
  have "lock d n md ''unlock'' eu True fs = (Some LockFileNotPresentError, md, fs1)"
    by simp
  with create_lock_dir_only_dirs [OF assms(1)] only_dirs_added_files [of fs fs1]
    create_lock_dir_existing [OF assms(1)]
  show ?thesis by simp
qed

theorem unlock_requires_lock_witness:
  "create_lock_dir ''/tmp/locks/'' Map.empty
     = (None, [[''tmp''] \<mapsto> Dir True, [''tmp'', ''locks''] \<mapsto> Dir True])
   \<and> \<not> is_locked (lock_file_of ''/tmp/locks/'' ''a'') Map.empty
   \<and> lock ''/tmp/locks/'' ''a'' [(''owner'', PyStr ''bob'')] ''unlock'' False True Map.empty
     = (Some LockFileNotPresentError, [(''owner'', PyStr ''bob'')],
        [[''tmp''] \<mapsto> Dir True, [''tmp'', ''locks''] \<mapsto> Dir True])"
proof -
  have h: "create_lock_dir ''/tmp/locks/'' Map.empty
             = (None, [[''tmp''] \<mapsto> Dir True, [''tmp'', ''locks''] \<mapsto> Dir True])"
    by (simp add: fs_eval path_eval)
  have l: "\<not> is_locked (lock_file_of ''/tmp/locks/'' ''a'') Map.empty"
    by (simp add: is_locked_def os_open_read_def node_at_def path_eval)
  from unlock_requires_lock [OF h l, of "[(''owner'', PyStr ''bob'')]" False] h l
  show ?thesis by simp
qed

subsection \<open>C8: lock, then unlock\<close>

text \<open>
  Claim C8, as stated, fails: on a resource that another holder has locked, the lock
  action (without \<^verbatim>\<open>ensure_unlock_state\<close>) and then the unlock action both
  return, and the lock file that was in the directory before the lock call is gone.
\<close>

theorem lock_unlock_round_trip_counterexample:
  "fst (lock ''/tmp/locks/'' ''a'' [] ''lock'' False False
          [[''tmp''] \<mapsto> Dir True, [''tmp'', ''locks''] \<mapsto> Dir True,
           [''tmp'', ''locks'', ''a.lock''] \<mapsto> File True True (Some [(''owner'', PyStr ''ann'')])])
     = None
   \<and> fst (lock ''/tmp/locks/'' ''a'' [] ''unlock'' False False
          (snd (snd (lock ''/tmp/locks/'' ''a'' [] ''lock'' False False
             [[''tmp''] \<mapsto> Dir True, [''tmp'', ''locks''] \<mapsto> Dir True,
              [''tmp'', ''locks'', ''a.lock''] \<mapsto>
                File True True (Some [(''owner'', PyStr ''ann'')])]))))
     = None
   \<and> [[''tmp''] \<mapsto> Dir True, [''tmp'', ''locks''] \<mapsto> Dir True,
       [''tmp'', ''locks'', ''a.lock''] \<mapsto> File True True (Some [(''owner'', PyStr ''ann'')])]
        [''tmp'', ''locks'', ''a.lock'']
     = Some (File True True (Some [(''owner'', PyStr ''ann'')]))
   \<and> snd (snd (lock ''/tmp/locks/'' ''a'' [] ''unlock'' False False
          (snd (snd (lock ''/tmp/locks/'' ''a'' [] ''lock'' False False
             [[''tmp''] \<mapsto> Dir True, [''tmp'', ''locks''] \<mapsto> Dir True,
              [''tmp'', ''locks'', ''a.lock''] \<mapsto>
                File True True (Some [(''owner'', PyStr ''ann'')])])))))
        [''tmp'', ''locks'', ''a.lock'']
     = None"
proof -
  let ?fs = "[[''tmp''] \<mapsto> Dir True, [''tmp'', ''locks''] \<mapsto> Dir True,
         [''tmp'', ''locks'', ''a.lock''] \<mapsto> File True True (Some [(''owner'', PyStr ''ann'')])]"
  let ?fs1 = "[[''tmp''] \<mapsto> Dir True, [''tmp'', ''locks''] \<mapsto> Dir True,
         [''tmp'', ''locks'', ''a.lock''] \<mapsto>
           File True True (Some [(''lock_file_location'', PyStr ''/tmp/locks/a.lock''),
                            (''lock_file_status'', PyStr ''locked'')])]"
  have h: "create_lock_dir ''/tmp/locks/'' ?fs = (None, ?fs)"
    by (simp add: fs_eval path_eval)
  have h1: "create_lock_dir ''/tmp/locks/'' ?fs1 = (None, ?fs1)"
    by (simp add: fs_eval path_eval)
  have p: "lock_file_of ''/tmp/locks/'' ''a'' = ''/tmp/locks/a.lock''"
    by (simp add: path_eval)
  have q: "path_of ''/tmp/locks/a.lock'' = [''tmp'', ''locks'', ''a.lock'']"
    by (simp add: path_eval)
  have r: "lock ''/tmp/locks/'' ''a'' [] ''lock'' False False ?fs
           = (None,
              [(''lock_file_location'', PyStr ''/tmp/locks/a.lock''),
               (''lock_file_status'', PyStr ''locked''),
               (''lock_action'', PyStr ''lock'')],
              ?fs1)"
    by (simp add: lock_lock [OF h] p q Let_def node_at_def may_create_def name_max_def dict_update_def)
  have u: "lock ''/tmp/locks/'' ''a'' [] ''unlock'' False False ?fs1
           = (None,
              [(''lock_file_location'', PyNone),
               (''lock_file_status'', PyStr ''unlocked''),
               (''lock_action'', PyStr ''unlock'')],
              ?fs1([''tmp'', ''locks'', ''a.lock''] := None))"
    using remove_lock_file_lock_path [of "''/tmp/locks/''" "''a''" ?fs1]
    by (simp add: lock_unlock [OF h1] p q node_at_def dict_update_def)
  show ?thesis
    by (simp add: r u)
qed

text \<open>
  Claim C8, amended. When a lock action has returned and the unlock action on the same
  resource that follows it has returned too, the file system is the one that the
  directory bootstrap of the lock call left, less the lock path: the lock path is
  absent. When the lock path was absent before the lock call, that is the file system
  from before the lock call with, at most, the lock directory and its missing ancestors
  added; nothing at all has changed when the bootstrap had nothing to create. A lock
  file that was there before the lock call is gone.
\<close>

theorem lock_unlock_round_trip:
  assumes "lock d n md ''lock'' eu el fs = (None, md1, fs1)"
    and "lock d n md2 ''unlock'' eu2 el2 fs1 = (None, md3, fs2)"
  shows "fs2 = (snd (create_lock_dir d fs))(path_of (lock_file_of d n) := None)
         \<and> fs2 (path_of (lock_file_of d n)) = None
         \<and> (fs (path_of (lock_file_of d n)) = None \<longrightarrow>
               fs2 = snd (create_lock_dir d fs) \<and> only_dirs_added fs fs2)
         \<and> (fs (path_of (lock_file_of d n)) = None \<and> snd (create_lock_dir d fs) = fs \<longrightarrow>
               fs2 = fs)"
proof -
  let ?lp = "path_of (lock_file_of d n)"
  let ?m = "dict_update md [(''lock_file_location'', PyStr (lock_file_of d n)),
                            (''lock_file_status'', PyStr ''locked'')]"
  obtain fsb where fsb: "fsb = snd (create_lock_dir d fs)" by simp
  from lock_lock_returns(3) [OF assms(1)] fsb have c: "create_lock_dir d fs = (None, fsb)"
    by (cases "create_lock_dir d fs") simp
  from lock_lock_returns(2) [OF assms(1)] fsb
  have fs1: "fs1 = fsb(?lp \<mapsto> File True True (Some ?m))"
    by simp
  have c1: "create_lock_dir d fs1 = (None, fs1)"
    using c by (rule create_lock_dir_again)
      (simp_all add: fs1 lock_path_not_dir_path lock_path_not_dir_path [symmetric])
  from lock_unlock_returns(1) [OF assms(2)] c1 have fs2: "fs2 = fsb(?lp := None)"
    by (simp add: fs1)
  have same: "fsb ?lp = fs ?lp"
    using c by (rule create_lock_dir_lock_path)
  have absent: "fs ?lp = None \<Longrightarrow> fsb(?lp := None) = fsb"
    using same by (simp add: fun_upd_idem_iff)
  from fs2 absent create_lock_dir_only_dirs [OF c] show ?thesis
    unfolding fsb [symmetric] by auto
qed

theorem lock_unlock_round_trip_witness:
  "lock ''/tmp/locks/'' ''a'' [(''msg'', PyStr ''deploy'')] ''lock'' True False
        [[''tmp''] \<mapsto> Dir True, [''tmp'', ''locks''] \<mapsto> Dir True]
     = (None,
        [(''msg'', PyStr ''deploy''),
         (''lock_file_location'', PyStr ''/tmp/locks/a.lock''),
         (''lock_file_status'', PyStr ''locked''),
         (''lock_action'', PyStr ''lock'')],
        [[''tmp''] \<mapsto> Dir True, [''tmp'', ''locks''] \<mapsto> Dir True,
         [''tmp'', ''locks'', ''a.lock''] \<mapsto>
           File True True (Some [(''msg'', PyStr ''deploy''),
                                 (''lock_file_location'', PyStr ''/tmp/locks/a.lock''),
                                 (''lock_file_status'', PyStr ''locked'')])])
   \<and> lock ''/tmp/locks/'' ''a'' [] ''unlock'' False True
        [[''tmp''] \<mapsto> Dir True, [''tmp'', ''locks''] \<mapsto> Dir True,
         [''tmp'', ''locks'', ''a.lock''] \<mapsto>
           File True True (Some [(''msg'', PyStr ''deploy''),
                                 (''lock_file_location'', PyStr ''/tmp/locks/a.lock''),
                                 (''lock_file_status'', PyStr ''locked'')])]
     = (None,
        [(''lock_file_location'', PyNone),
         (''lock_file_status'', PyStr ''unlocked''),
         (''lock_action'', PyStr ''unlock'')],
        [[''tmp''] \<mapsto> Dir True, [''tmp'', ''locks''] \<mapsto> Dir True])
   \<and> snd (create_lock_dir ''/tmp/locks/''
          [[''tmp''] \<mapsto> Dir True, [''tmp'', ''locks''] \<mapsto> Dir True])
     = [[''tmp''] \<mapsto> Dir True, [''tmp'', ''locks''] \<mapsto> Dir True]"
proof -
  let ?dirs = "[[''tmp''] \<mapsto> Dir True, [''tmp'', ''locks''] \<mapsto> Dir True] :: fs"
  let ?held = "[[''tmp''] \<mapsto> Dir True, [''tmp'', ''locks''] \<mapsto> Dir True,
         [''tmp'', ''locks'', ''a.lock''] \<mapsto>
           File True True (Some [(''msg'', PyStr ''deploy''),
                                 (''lock_file_location'', PyStr ''/tmp/locks/a.lock''),
                                 (''lock_file_status'', PyStr ''locked'')])]"
  have h: "create_lock_dir ''/tmp/locks/'' ?dirs = (None, ?dirs)"
    by (simp add: fs_eval path_eval)
  have h1: "create_lock_dir ''/tmp/locks/'' ?held = (None, ?held)"
    by (simp add: fs_eval path_eval)
  have p: "lock_file_of ''/tmp/locks/'' ''a'' = ''/tmp/locks/a.lock''"
    by (simp add: path_eval)
  have q: "path_of ''/tmp/locks/a.lock'' = [''tmp'', ''locks'', ''a.lock'']"
    by (simp add: path_eval)
  have z: "?dirs([''tmp'', ''locks'', ''a.lock''] := None) = ?dirs"
    by (rule ext) simp
  have l: "is_locked ''/tmp/locks/a.lock'' ?held"
    by (simp add: is_locked_def os_open_read_def node_at_def q)
  have r: "lock ''/tmp/locks/'' ''a'' [(''msg'', PyStr ''deploy'')] ''lock'' True False ?dirs
     = (None,
        [(''msg'', PyStr ''deploy''),
         (''lock_file_location'', PyStr ''/tmp/locks/a.lock''),
         (''lock_file_status'', PyStr ''locked''),
         (''lock_action'', PyStr ''lock'')],
        ?held)"
    by (simp add: lock_lock [OF h] p q Let_def node_at_def may_create_def name_max_def
          dict_update_def is_locked_def os_open_read_def)
  have u: "lock ''/tmp/locks/'' ''a'' [] ''unlock'' False True ?held
     = (None,
        [(''lock_file_location'', PyNone),
         (''lock_file_status'', PyStr ''unlocked''),
         (''lock_action'', PyStr ''unlock'')],
        ?dirs)"
    using remove_lock_file_lock_path [of "''/tmp/locks/''" "''a''" ?held]
    by (simp add: lock_unlock [OF h1] p q l node_at_def dict_update_def z)
  from lock_unlock_round_trip [OF r u] have "?dirs = snd (create_lock_dir ''/tmp/locks/'' ?dirs)"
    by (simp add: p q)
  with r u show ?thesis by simp
qed

subsection \<open>C9: invalid actions\<close>

text \<open>
  Claim C9, as stated, fails: it is not for every file system that an unknown action
  raises \<^verbatim>\<open>LockActionError\<close>. Where \<^verbatim>\<open>/tmp/locks\<close> is a regular file, the
  action \<^verbatim>\<open>wipe\<close> for the directory \<^verbatim>\<open>/tmp/locks/sub/\<close> raises the
  \<^verbatim>\<open>OSError\<close> of the directory bootstrap (\<^verbatim>\<open>ENOTDIR\<close>), which runs before
  the action is looked at.
\<close>

theorem invalid_action_counterexample:
  "fst (lock ''/tmp/locks/sub/'' ''a'' [] ''wipe'' False False
          [[''tmp''] \<mapsto> Dir True, [''tmp'', ''locks''] \<mapsto> File True True None])
     = Some (OSError ENOTDIR)
   \<and> Some (OSError ENOTDIR) \<noteq> Some LockActionError"
proof -
  have "create_lock_dir ''/tmp/locks/sub/''
          [[''tmp''] \<mapsto> Dir True, [''tmp'', ''locks''] \<mapsto> File True True None]
        = (Some (OSError ENOTDIR),
           [[''tmp''] \<mapsto> Dir True, [''tmp'', ''locks''] \<mapsto> File True True None])"
    by (simp add: fs_eval path_eval)
  then show ?thesis
    by (simp add: lock_bootstrap_raises)
qed

text \<open>
  Claim C9, amended. For every action string other than \<^verbatim>\<open>status\<close>, \<^verbatim>\<open>unlock\<close> and
  \<^verbatim>\<open>lock\<close>, when the directory bootstrap has not raised, the call raises
  \<^verbatim>\<open>LockActionError\<close> (the InvalidAction kind) with the dictionary untouched, and
  it creates no file: the regular files after the call are exactly the regular files
  before it, with the same content. What the call can leave behind is the lock
  directory, made by the bootstrap before the action is looked at.
\<close>

theorem invalid_action_rejected:
  assumes "create_lock_dir d fs = (None, fs1)"
    and "a \<noteq> ''status''" and "a \<noteq> ''unlock''" and "a \<noteq> ''lock''"
  shows "lock d n md a eu el fs = (Some LockActionError, md, fs1)
         \<and> (\<forall>q r w c. (fs1 q = Some (File r w c)) = (fs q = Some (File r w c)))
         \<and> only_dirs_added fs fs1"
  using lock_invalid [OF assms, of n md eu el] create_lock_dir_only_dirs [OF assms(1)]
    only_dirs_added_files [of fs fs1]
  by simp

theorem invalid_action_rejected_witness:
  "create_lock_dir ''/tmp/locks/''
        [[''tmp''] \<mapsto> Dir True, [''tmp'', ''old.lock''] \<mapsto> File True True None]
     = (None, [[''tmp''] \<mapsto> Dir True, [''tmp'', ''old.lock''] \<mapsto> File True True None,
               [''tmp'', ''locks''] \<mapsto> Dir True])
   \<and> lock ''/tmp/locks/'' ''a'' [(''owner'', PyStr ''bob'')] ''wipe'' False False
        [[''tmp''] \<mapsto> Dir True, [''tmp'', ''old.lock''] \<mapsto> File True True None]
     = (Some LockActionError, [(''owner'', PyStr ''bob'')],
        [[''tmp''] \<mapsto> Dir True, [''tmp'', ''old.lock''] \<mapsto> File True True None,
         [''tmp'', ''locks''] \<mapsto> Dir True])"
proof -
  have h: "create_lock_dir ''/tmp/locks/''
             [[''tmp''] \<mapsto> Dir True, [''tmp'', ''old.lock''] \<mapsto> File True True None]
           = (None, [[''tmp''] \<mapsto> Dir True, [''tmp'', ''old.lock''] \<mapsto> File True True None,
                     [''tmp'', ''locks''] \<mapsto> Dir True])"
    by (simp add: fs_eval path_eval)
  from invalid_action_rejected [OF h, of "''wipe''" "''a''" "[(''owner'', PyStr ''bob'')]" False False] h
  show ?thesis by simp
qed

subsection \<open>C10: locking a locked resource again\<close>

text \<open>
  Claim C10, as stated, fails, in two ways. On a lock file that the process can read
  but not write, the lock action with \<^verbatim>\<open>ensure_unlock_state=False\<close> raises the
  \<^verbatim>\<open>OSError\<close> of \<^verbatim>\<open>open\<close> (\<^verbatim>\<open>EACCES\<close>) and the file keeps what it held.
  And with the empty string as directory the lock file \<^verbatim>\<open>a.lock\<close> can be there,
  readable and writable, and the call raises the \<^verbatim>\<open>OSError\<close> of the directory
  bootstrap.
\<close>

theorem relock_overwrites_counterexample:
  "is_locked (lock_file_of ''/tmp/locks/'' ''a'')
      [[''tmp''] \<mapsto> Dir True, [''tmp'', ''locks''] \<mapsto> Dir True,
       [''tmp'', ''locks'', ''a.lock''] \<mapsto>
         File True False (Some [(''owner'', PyStr ''ann'')])]
   \<and> lock ''/tmp/locks/'' ''a'' [(''owner'', PyStr ''bob'')] ''lock'' False False
         [[''tmp''] \<mapsto> Dir True, [''tmp'', ''locks''] \<mapsto> Dir True,
          [''tmp'', ''locks'', ''a.lock''] \<mapsto>
            File True False (Some [(''owner'', PyStr ''ann'')])]
     = (Some (OSError EACCES), [(''owner'', PyStr ''bob'')],
        [[''tmp''] \<mapsto> Dir True, [''tmp'', ''locks''] \<mapsto> Dir True,
         [''tmp'', ''locks'', ''a.lock''] \<mapsto>
           File True False (Some [(''owner'', PyStr ''ann'')])])
   \<and> is_locked (lock_file_of '''' ''a'')
         [[''a.lock''] \<mapsto> File True True (Some [(''owner'', PyStr ''ann'')])]
   \<and> fst (lock '''' ''a'' [(''owner'', PyStr ''bob'')] ''lock'' False False
          [[''a.lock''] \<mapsto> File True True (Some [(''owner'', PyStr ''ann'')])])
     = Some (OSError ENOENT)"
proof -
  let ?cwd = "[[''a.lock''] \<mapsto> File True True (Some [(''owner'', PyStr ''ann'')])]"
  let ?fs = "[[''tmp''] \<mapsto> Dir True, [''tmp'', ''locks''] \<mapsto> Dir True,
              [''tmp'', ''locks'', ''a.lock''] \<mapsto>
                File True False (Some [(''owner'', PyStr ''ann'')])]"
  have h: "create_lock_dir ''/tmp/locks/'' ?fs = (None, ?fs)"
    by (simp add: fs_eval path_eval)
  have p: "lock_file_of ''/tmp/locks/'' ''a'' = ''/tmp/locks/a.lock''"
    by (simp add: path_eval)
  have q: "path_of ''/tmp/locks/a.lock'' = [''tmp'', ''locks'', ''a.lock'']"
    by (simp add: path_eval)
  have a: "is_locked (lock_file_of ''/tmp/locks/'' ''a'') ?fs"
    by (simp add: is_locked_def os_open_read_def node_at_def p q)
  have b: "lock ''/tmp/locks/'' ''a'' [(''owner'', PyStr ''bob'')] ''lock'' False False ?fs
             = (Some (OSError EACCES), [(''owner'', PyStr ''bob'')], ?fs)"
    by (simp add: lock_lock [OF h] p q Let_def)
  have q0: "path_of (lock_file_of '''' ''a'') = [''a.lock'']"
    by (simp add: path_eval)
  have c: "is_locked (lock_file_of '''' ''a'') ?cwd"
    unfolding is_locked_def os_open_read_def q0 by (simp add: node_at_def)
  have "create_lock_dir '''' ?cwd = (Some (OSError ENOENT), ?cwd)"
    by (simp add: fs_eval)
  then have e: "fst (lock '''' ''a'' [(''owner'', PyStr ''bob'')] ''lock'' False False ?cwd)
                  = Some (OSError ENOENT)"
    by (simp add: lock_bootstrap_raises)
  from a b c e show ?thesis by blast
qed

text \<open>
  Claim C10, amended. On a resource whose lock file the process can read and write,
  when the directory bootstrap has not raised, the lock action with
  \<^verbatim>\<open>ensure_unlock_state=False\<close> returns without an exception, and what is read
  from the lock file afterwards is the new metadata merged with the location and the
  status: whatever the file held before is gone.
\<close>

theorem relock_overwrites:
  assumes "create_lock_dir d fs = (None, fs1)"
    and "node_at fs (path_of (lock_file_of d n)) = Some (File True True c)"
  shows "is_locked (lock_file_of d n) fs
         \<and> lock d n md ''lock'' False el fs =
           (None,
            dict_update
              (dict_update md [(''lock_file_location'', PyStr (lock_file_of d n)),
                               (''lock_file_status'', PyStr ''locked'')])
              [(''lock_action'', PyStr ''lock'')],
            fs1(path_of (lock_file_of d n) \<mapsto>
                  File True True (Some (dict_update md
                    [(''lock_file_location'', PyStr (lock_file_of d n)),
                     (''lock_file_status'', PyStr ''locked'')]))))
         \<and> persisted (lock_file_of d n)
               (snd (snd (lock d n md ''lock'' False el fs)))
             = Some (dict_update md [(''lock_file_location'', PyStr (lock_file_of d n)),
                                     (''lock_file_status'', PyStr ''locked'')])"
proof -
  have here: "fs (path_of (lock_file_of d n)) = Some (File True True c)"
    using assms(2) by (simp add: node_at_def lock_path_nonempty)
  have same: "fs1 (path_of (lock_file_of d n)) = fs (path_of (lock_file_of d n))"
    using assms(1) by (rule create_lock_dir_lock_path)
  with here have "fs1 (path_of (lock_file_of d n)) = Some (File True True c)"
    by simp
  with lock_lock [OF assms(1), of n md False el] here show ?thesis
    by (auto simp add: Let_def persisted_lock_path is_locked_iff)
qed

theorem relock_overwrites_witness:
  "create_lock_dir ''/tmp/locks/''
        [[''tmp''] \<mapsto> Dir True, [''tmp'', ''locks''] \<mapsto> Dir True,
         [''tmp'', ''locks'', ''a.lock''] \<mapsto>
           File True True (Some [(''owner'', PyStr ''ann'')])]
     = (None,
        [[''tmp''] \<mapsto> Dir True, [''tmp'', ''locks''] \<mapsto> Dir True,
         [''tmp'', ''locks'', ''a.lock''] \<mapsto>
           File True True (Some [(''owner'', PyStr ''ann'')])])
   \<and> node_at
        [[''tmp''] \<mapsto> Dir True, [''tmp'', ''locks''] \<mapsto> Dir True,
         [''tmp'', ''locks'', ''a.lock''] \<mapsto>
           File True True (Some [(''owner'', PyStr ''ann'')])]
        (path_of (lock_file_of ''/tmp/locks/'' ''a''))
     = Some (File True True (Some [(''owner'', PyStr ''ann'')]))
   \<and> fst (lock ''/tmp/locks/'' ''a'' [(''msg'', PyStr ''deploy'')] ''lock'' False False
        [[''tmp''] \<mapsto> Dir True, [''tmp'', ''locks''] \<mapsto> Dir True,
         [''tmp'', ''locks'', ''a.lock''] \<mapsto>
           File True True (Some [(''owner'', PyStr ''ann'')])])
     = None
   \<and> persisted ''/tmp/locks/a.lock''
        (snd (snd (lock ''/tmp/locks/'' ''a'' [(''msg'', PyStr ''deploy'')] ''lock'' False False
          [[''tmp''] \<mapsto> Dir True, [''tmp'', ''locks''] \<mapsto> Dir True,
           [''tmp'', ''locks'', ''a.lock''] \<mapsto>
             File True True (Some [(''owner'', PyStr ''ann'')])])))
     = Some [(''msg'', PyStr ''deploy''),
             (''lock_file_location'', PyStr ''/tmp/locks/a.lock''),
             (''lock_file_status'', PyStr ''locked'')]"
proof -
  let ?fs = "[[''tmp''] \<mapsto> Dir True, [''tmp'', ''locks''] \<mapsto> Dir True,
         [''tmp'', ''locks'', ''a.lock''] \<mapsto>
           File True True (Some [(''owner'', PyStr ''ann'')])]"
  have h: "create_lock_dir ''/tmp/locks/'' ?fs = (None, ?fs)"
    by (simp add: fs_eval path_eval)
  have p: "lock_file_of ''/tmp/locks/'' ''a'' = ''/tmp/locks/a.lock''"
    by (simp add: path_eval)
  have q: "path_of ''/tmp/locks/a.lock'' = [''tmp'', ''locks'', ''a.lock'']"
    by (simp add: path_eval)
  have f: "node_at ?fs (path_of (lock_file_of ''/tmp/locks/'' ''a''))
             = Some (File True True (Some [(''owner'', PyStr ''ann'')]))"
    by (simp add: node_at_def p q)
  note t = relock_overwrites [OF h f, of "[(''msg'', PyStr ''deploy'')]" False]
  from t [THEN conjunct2, THEN conjunct1]
  have a: "fst (lock ''/tmp/locks/'' ''a'' [(''msg'', PyStr ''deploy'')] ''lock'' False False ?fs)
             = None"
    by simp
  from t [THEN conjunct2, THEN conjunct2]
  have b: "persisted ''/tmp/locks/a.lock''
             (snd (snd (lock ''/tmp/locks/'' ''a'' [(''msg'', PyStr ''deploy'')] ''lock''
                          False False ?fs)))
           = Some [(''msg'', PyStr ''deploy''),
                   (''lock_file_location'', PyStr ''/tmp/locks/a.lock''),
                   (''lock_file_status'', PyStr ''locked'')]"
    by (simp add: p dict_update_def)
  from h f a b show ?thesis by blast
qed

end
